theory Spec2Isabelle
  imports Main
begin

section \<open>Data model (src/analyzer/types.ts)\<close>

text \<open>
  The analyzer passes two record kinds around: \<open>AstNode\<close> and \<open>RelationshipInfo\<close>.
  The records below keep the fields that the modelled functions read or write.
  The per-run instance id (\<open>id\<close>), the columns, \<open>createdAt\<close> and the purely descriptive
  optional fields (\<open>type\<close>, \<open>loc\<close>, \<open>documentation\<close>, \<open>tags\<close>, ...) are left out: no
  modelled function branches on them.  The open \<open>properties\<close> object is an association
  list from property names to JavaScript values; an absent \<open>properties\<close> object is
  \<open>None\<close>.  In \<open>RelationshipInfo\<close> the fields \<open>entityId\<close>, \<open>type\<close> and \<open>properties\<close>
  carry the prefix \<open>rel_\<close>, because record fields share one name space.
\<close>

datatype pval = PBool bool | PStr string | PNum int | PStrs "string list" | PUndefined

text \<open>JavaScript truthiness of a property read (\<open>None\<close>: the property is absent).\<close>

fun truthy :: "pval option \<Rightarrow> bool" where
  "truthy None = False"
| "truthy (Some (PBool b)) = b"
| "truthy (Some (PStr s)) = (s \<noteq> [])"
| "truthy (Some (PNum n)) = (n \<noteq> 0)"
| "truthy (Some (PStrs xs)) = True"
| "truthy (Some PUndefined) = False"

record AstNode =
  entityId :: string
  kind :: string
  name :: string
  filePath :: string
  language :: string
  startLine :: nat
  endLine :: nat
  isExported :: "bool option"
  properties :: "(string \<times> pval) list option"

record RelationshipInfo =
  rel_entityId :: string
  rel_type :: string
  sourceId :: string
  targetId :: string
  weight :: nat
  rel_properties :: "(string \<times> pval) list option"

record SingleFileParseResult =
  res_filePath :: string
  nodes :: "AstNode list"
  relationships :: "RelationshipInfo list"

text \<open>\<open>node.properties?.key\<close>: undefined when the object or the key is absent.\<close>

definition getProp :: "AstNode \<Rightarrow> string \<Rightarrow> pval option" where
  "getProp n key = (case properties n of None \<Rightarrow> None | Some ps \<Rightarrow> map_of ps key)"

section \<open>The JavaScript \<open>Map\<close>\<close>

text \<open>
  A JavaScript \<open>Map\<close> iterates in insertion order, and \<open>set\<close> on a key that is already
  present replaces the value and keeps the key's position.  The model is an
  association list with at most one entry per key.
\<close>

type_synonym ('k, 'v) jsmap = "('k \<times> 'v) list"

fun map_set :: "'k \<Rightarrow> 'v \<Rightarrow> ('k, 'v) jsmap \<Rightarrow> ('k, 'v) jsmap" where
  "map_set k v [] = [(k, v)]"
| "map_set k v (e # m) = (if fst e = k then (k, v) # m else e # map_set k v m)"

definition map_get :: "('k, 'v) jsmap \<Rightarrow> 'k \<Rightarrow> 'v option" where
  "map_get m k = map_of m k"

definition map_values :: "('k, 'v) jsmap \<Rightarrow> 'v list" where
  "map_values m = map snd m"

text \<open>\<open>new Map(entries)\<close>: the entries are set one after the other.\<close>

definition map_from_entries :: "('k \<times> 'v) list \<Rightarrow> ('k, 'v) jsmap" where
  "map_from_entries es = fold (\<lambda>e m. map_set (fst e) (snd e) m) es []"

section \<open>The ts-morph project as the analyzer reads it\<close>

text \<open>
  The analyzer reads TypeScript sources through ts-morph.  A source file is modelled by
  the answers ts-morph gives to the queries the modelled functions make: the file path,
  the language variant, the import declarations, the function-like nodes (the function
  declarations of the file, then its function expressions, then its arrow functions)
  and the variable statements.  Classes, interfaces, type aliases and JSX are outside
  the modelled fragment.  An import declaration carries the path of the source file
  that ts-morph resolves its module specifier to, when it resolves it.
\<close>

datatype LanguageVariant = Standard | JSX

record NamedImport =
  ni_name :: string
  ni_alias :: "string option"

record ImportDeclaration =
  moduleSpecifierValue :: string
  imp_startLine :: nat
  imp_endLine :: nat
  namedImports :: "NamedImport list"
  defaultImport :: "string option"
  namespaceImport :: "string option"
  isTypeOnly :: bool
  moduleSpecifierSourceFile :: "string option"

datatype InitializerKind = NoInitializer | FunctionExpressionInit | ArrowFunctionInit | OtherInit

record VariableDeclaration =
  var_name :: string
  var_startLine :: nat
  var_endLine :: nat
  initializer :: InitializerKind

datatype VariableDeclarationKind = Const | Let | Var

record VariableStatement =
  vs_isExported :: bool
  declarationKind :: VariableDeclarationKind
  declarations :: "VariableDeclaration list"

text \<open>
  A function-like node (function declaration, function expression or arrow function)
  with what \<open>parseFunctions\<close> asks of it: its own name and export flag, its lines, its
  first \<open>VariableDeclaration\<close> ancestor (name, lines, and the export flag of the
  enclosing variable statement when there is one), its first \<open>CallExpression\<close> ancestor
  (the text of the callee and the index of the node among the arguments, \<open>-1\<close> when it
  is not one of them) and its parameters.
\<close>

datatype FunctionLikeKind = FunctionDeclarationK | FunctionExpressionK | ArrowFunctionK

record VariableDeclAncestor =
  vd_name :: string
  vd_startLine :: nat
  vd_endLine :: nat
  vd_statementExported :: "bool option"

record CallExprAncestor =
  ce_calleeText :: string
  ce_argIndex :: int

record ParameterDeclaration =
  param_name :: string
  param_startLine :: nat
  param_endLine :: nat

record FunctionLike =
  fl_kind :: FunctionLikeKind
  fl_name :: "string option"
  fl_isExported :: bool
  fl_startLine :: nat
  fl_endLine :: nat
  fl_variableDecl :: "VariableDeclAncestor option"
  fl_callExpr :: "CallExprAncestor option"
  fl_parameters :: "ParameterDeclaration list"

record SourceFile =
  sf_filePath :: string
  languageVariant :: LanguageVariant
  sf_endLine :: nat
  importDeclarations :: "ImportDeclaration list"
  functionLikes :: "FunctionLike list"
  variableStatements :: "VariableStatement list"

type_synonym Project = "SourceFile list"

definition getSourceFile :: "Project \<Rightarrow> string \<Rightarrow> SourceFile option" where
  "getSourceFile project p = find (\<lambda>sf. sf_filePath sf = p) project"

section \<open>Pass 2: \<open>RelationshipResolver\<close> (src/analyzer/relationship-resolver.ts)\<close>

text \<open>
  \<open>resolveRelationships\<close> creates a context whose \<open>addRelationship\<close> closes over the
  result array and a set of the entity ids added so far.  The resolvers receive only
  this context, so all they can do to the result is call \<open>addRelationship\<close>: a
  resolver is modelled by the list of relationships it submits, in call order, and the
  runner feeds that list to \<open>addRelationship\<close>.
\<close>

record ResolverState =
  st_relationships :: "RelationshipInfo list"
  addedRelEntityIds :: "string set"

definition addRelationship :: "RelationshipInfo \<Rightarrow> ResolverState \<Rightarrow> ResolverState" where
  "addRelationship rel st =
     (if rel_entityId rel \<notin> addedRelEntityIds st
      then st\<lparr>st_relationships := st_relationships st @ [rel],
              addedRelEntityIds := insert (rel_entityId rel) (addedRelEntityIds st)\<rparr>
      else st)"

type_synonym Resolver = "SourceFile \<Rightarrow> AstNode \<Rightarrow> (string, AstNode) jsmap \<Rightarrow> RelationshipInfo list"

record Resolvers =
  tsModules :: Resolver
  tsInheritance :: Resolver
  tsCrossFileInteractions :: Resolver
  tsComponentUsage :: Resolver
  cIncludes :: Resolver

text \<open>The body of the loop over the file nodes: the submissions made for one file node.\<close>

definition resolveFile :: "Resolvers \<Rightarrow> Project \<Rightarrow> (string, AstNode) jsmap \<Rightarrow> AstNode \<Rightarrow> RelationshipInfo list" where
  "resolveFile rs project nodeIndex fileNode =
     (if language fileNode = ''TypeScript'' \<or> language fileNode = ''JavaScript''
      then (case getSourceFile project (filePath fileNode) of
              Some sourceFile \<Rightarrow>
                tsModules rs sourceFile fileNode nodeIndex
                @ tsInheritance rs sourceFile fileNode nodeIndex
                @ tsCrossFileInteractions rs sourceFile fileNode nodeIndex
                @ tsComponentUsage rs sourceFile fileNode nodeIndex
            | None \<Rightarrow> [])
      else [])
     @
     (if language fileNode = ''C'' \<or> language fileNode = ''C++''
      then (case getSourceFile project (filePath fileNode) of
              Some cSourceFile \<Rightarrow> cIncludes rs cSourceFile fileNode nodeIndex
            | None \<Rightarrow> [])
      else [])"

text \<open>The constructor builds the node index: \<open>new Map(allNodes.map(node => [node.entityId, node]))\<close>.\<close>

definition nodeIndexOf :: "AstNode list \<Rightarrow> (string, AstNode) jsmap" where
  "nodeIndexOf allNodes = map_from_entries (map (\<lambda>node. (entityId node, node)) allNodes)"

definition resolveRelationships :: "Resolvers \<Rightarrow> Project \<Rightarrow> AstNode list \<Rightarrow> RelationshipInfo list" where
  "resolveRelationships rs project allNodes =
     (let nodeIndex = nodeIndexOf allNodes;
          fileNodes = filter (\<lambda>node. kind node = ''File'' \<or> kind node = ''PythonModule'')
                        (map_values nodeIndex);
          st = fold (\<lambda>fileNode st. fold addRelationship (resolveFile rs project nodeIndex fileNode) st)
                 fileNodes \<lparr>st_relationships = [], addedRelEntityIds = {}\<rparr>
      in st_relationships st)"

text \<open>
  The submissions of one resolution run, in call order, and the first relationship of
  each entity id among a list of relationships.
\<close>

definition submissions :: "Resolvers \<Rightarrow> Project \<Rightarrow> AstNode list \<Rightarrow> RelationshipInfo list" where
  "submissions rs project allNodes =
     concat (map (resolveFile rs project (nodeIndexOf allNodes))
               (filter (\<lambda>node. kind node = ''File'' \<or> kind node = ''PythonModule'')
                  (map_values (nodeIndexOf allNodes))))"

function firstById :: "RelationshipInfo list \<Rightarrow> RelationshipInfo list" where
  "firstById [] = []"
| "firstById (r # rs) = r # firstById (filter (\<lambda>x. rel_entityId x \<noteq> rel_entityId r) rs)"
  by pat_completeness auto
termination
  by (relation "measure length") (auto simp: less_Suc_eq_le)

section \<open>Collecting the Pass 1 results: \<open>Parser.collectResults\<close> (src/analyzer/parser.ts)\<close>

text \<open>
  \<open>collectResults\<close> reads the temporary JSON files of the non-TypeScript parsers and
  then the in-memory results of the TypeScript files.  A temporary file that cannot be
  read or parsed is skipped by the \<open>catch\<close>; a parsed document is processed only when
  \<open>result.filePath && result.nodes && result.relationships\<close> holds.  A failing
  \<open>readdir\<close> skips all temporary files (\<open>None\<close>).  Deleting the temporary files,
  counting the intra-file duplicates and logging change neither map and are left out.
\<close>

datatype TempFile =
  Unreadable
| Parsed "string option" "AstNode list option" "RelationshipInfo list option"

type_synonym CollectState = "(string, AstNode) jsmap \<times> (string, RelationshipInfo) jsmap"

text \<open>The inner loops over one file's result: first the per-file map, then the main maps.\<close>

definition dedupFileNodes :: "AstNode list \<Rightarrow> (string, AstNode) jsmap" where
  "dedupFileNodes ns = fold (\<lambda>node fileNodeMap. map_set (entityId node) node fileNodeMap) ns []"

definition mergeNodes :: "(string, AstNode) jsmap \<Rightarrow> (string, AstNode) jsmap \<Rightarrow> (string, AstNode) jsmap" where
  "mergeNodes fileNodeMap nodeMap = fold (\<lambda>e nodeMap. map_set (fst e) (snd e) nodeMap) fileNodeMap nodeMap"

definition mergeRelationships ::
  "RelationshipInfo list \<Rightarrow> (string, RelationshipInfo) jsmap \<Rightarrow> (string, RelationshipInfo) jsmap" where
  "mergeRelationships rels relationshipMap =
     fold (\<lambda>rel relationshipMap. map_set (rel_entityId rel) rel relationshipMap) rels relationshipMap"

definition collectFile :: "AstNode list \<Rightarrow> RelationshipInfo list \<Rightarrow> CollectState \<Rightarrow> CollectState" where
  "collectFile ns rels s = (mergeNodes (dedupFileNodes ns) (fst s), mergeRelationships rels (snd s))"

fun collectJson :: "TempFile \<Rightarrow> CollectState \<Rightarrow> CollectState" where
  "collectJson (Parsed (Some p) (Some ns) (Some rels)) s = (if p \<noteq> [] then collectFile ns rels s else s)"
| "collectJson _ s = s"

definition collectMaps :: "TempFile list option \<Rightarrow> (string, SingleFileParseResult) jsmap \<Rightarrow> CollectState" where
  "collectMaps tempDir tsResults =
     (let s0 = ([], []);
          s1 = (case tempDir of None \<Rightarrow> s0 | Some jsonFiles \<Rightarrow> fold collectJson jsonFiles s0)
      in fold (\<lambda>e s. collectFile (nodes (snd e)) (relationships (snd e)) s) tsResults s1)"

definition collectResults ::
  "TempFile list option \<Rightarrow> (string, SingleFileParseResult) jsmap \<Rightarrow> AstNode list \<times> RelationshipInfo list" where
  "collectResults tempDir tsResults =
     (let s = collectMaps tempDir tsResults
      in (map_values (fst s), map_values (snd s)))"

text \<open>
  The records in the order in which \<open>collectResults\<close> meets them: the valid temporary
  files in directory order, then the TypeScript results in insertion order, each
  file's records in array order.
\<close>

fun jsonNodes :: "TempFile \<Rightarrow> AstNode list" where
  "jsonNodes (Parsed (Some p) (Some ns) (Some rels)) = (if p \<noteq> [] then ns else [])"
| "jsonNodes _ = []"

fun jsonRelationships :: "TempFile \<Rightarrow> RelationshipInfo list" where
  "jsonRelationships (Parsed (Some p) (Some ns) (Some rels)) = (if p \<noteq> [] then rels else [])"
| "jsonRelationships _ = []"

definition processedNodes :: "TempFile list option \<Rightarrow> (string, SingleFileParseResult) jsmap \<Rightarrow> AstNode list" where
  "processedNodes tempDir tsResults =
     (case tempDir of None \<Rightarrow> [] | Some jsonFiles \<Rightarrow> concat (map jsonNodes jsonFiles))
     @ concat (map (\<lambda>e. nodes (snd e)) tsResults)"

definition processedRelationships ::
  "TempFile list option \<Rightarrow> (string, SingleFileParseResult) jsmap \<Rightarrow> RelationshipInfo list" where
  "processedRelationships tempDir tsResults =
     (case tempDir of None \<Rightarrow> [] | Some jsonFiles \<Rightarrow> concat (map jsonRelationships jsonFiles))
     @ concat (map (\<lambda>e. relationships (snd e)) tsResults)"

text \<open>The last record of a sequence that carries a given key.\<close>

definition lastWith :: "('a \<Rightarrow> 'k) \<Rightarrow> 'k \<Rightarrow> 'a list \<Rightarrow> 'a" where
  "lastWith key k xs = last (filter (\<lambda>x. key x = k) xs)"

section \<open>Configuration (src/config/index.ts)\<close>

definition supportedExtensions :: "string list" where
  "supportedExtensions =
     [''.ts'', ''.tsx'', ''.js'', ''.jsx'',
      ''.py'',
      ''.c'', ''.h'', ''.cpp'', ''.hpp'', ''.cc'', ''.hh'',
      ''.java'',
      ''.cs'',
      ''.go'',
      ''.sql'']"

text \<open>
  \<open>storageBatchSize\<close> is \<open>parseInt(process.env.STORAGE_BATCH_SIZE || '100', 10)\<close>,
  replaced by 100 when it is \<open>NaN\<close> or not positive.  \<open>parseInt\<close> is the ECMAScript
  built-in: it skips leading white space, reads an optional sign, takes the longest run
  of decimal digits that follows and ignores the rest of the string; without a digit
  the result is \<open>NaN\<close>.  The environment string is a \<open>string\<close> of 8-bit characters, so
  the white space characters are the ECMAScript ones with a code below 256.  The
  result is a double: an integer of magnitude up to \<open>2 ^ 53\<close> is exact (\<open>Finite\<close>), a
  larger one is rounded, and the model keeps only its sign (\<open>Rounded\<close>, \<open>True\<close> for a
  negative value).
\<close>

datatype jsnumber = NaN | Finite int | Rounded bool

definition isStrWhiteSpaceChar :: "char \<Rightarrow> bool" where
  "isStrWhiteSpaceChar c = ((of_char c :: nat) \<in> {9, 10, 11, 12, 13, 32, 160})"

definition isDecimalDigit :: "char \<Rightarrow> bool" where
  "isDecimalDigit c = (48 \<le> (of_char c :: nat) \<and> (of_char c :: nat) \<le> 57)"

definition digitValue :: "char \<Rightarrow> int" where
  "digitValue c = int (of_char c) - 48"

definition mathInt :: "string \<Rightarrow> int" where
  "mathInt Z = foldl (\<lambda>acc c. 10 * acc + digitValue c) 0 Z"

definition toNumber :: "int \<Rightarrow> jsnumber" where
  "toNumber v = (if \<bar>v\<bar> \<le> 2 ^ 53 then Finite v else Rounded (v < 0))"

definition parseInt10 :: "string \<Rightarrow> jsnumber" where
  "parseInt10 inputString =
     (let S = dropWhile isStrWhiteSpaceChar inputString;
          sign = (if S \<noteq> [] \<and> hd S = CHR ''-'' then - 1 else 1);
          S' = (if S \<noteq> [] \<and> (hd S = CHR ''+'' \<or> hd S = CHR ''-'') then tl S else S);
          Z = takeWhile isDecimalDigit S'
      in if Z = [] then NaN else toNumber (sign * mathInt Z))"

fun isNaN :: "jsnumber \<Rightarrow> bool" where
  "isNaN NaN = True"
| "isNaN _ = False"

text \<open>The comparison \<open>x <= 0\<close> on doubles; it is false for \<open>NaN\<close>.\<close>

fun leqZero :: "jsnumber \<Rightarrow> bool" where
  "leqZero NaN = False"
| "leqZero (Finite v) = (v \<le> 0)"
| "leqZero (Rounded negative) = negative"

definition storageBatchSize :: "string option \<Rightarrow> jsnumber" where
  "storageBatchSize env =
     (let parsed = parseInt10 (case env of None \<Rightarrow> ''100'' | Some s \<Rightarrow> if s = [] then ''100'' else s)
      in if isNaN parsed \<or> leqZero parsed then Finite 100 else parsed)"

text \<open>
  The reading of the specification: a value denotes a positive integer when it is a
  non-empty string of decimal digits whose value is positive.
\<close>

definition denotesPositiveInteger :: "string \<Rightarrow> bool" where
  "denotesPositiveInteger s = (s \<noteq> [] \<and> list_all isDecimalDigit s \<and> 0 < mathInt s)"

section \<open>Pass 1 dispatch: \<open>Parser.parseFiles\<close> (src/analyzer/parser.ts)\<close>

text \<open>
  The loop of \<open>parseFiles\<close> switches on the extension of each scanned file.  A parser
  call is recorded with the parser and the file, a TypeScript or JavaScript file is
  queued for the ts-morph project, and the \<open>default\<close> case logs.  The state keeps the
  three effects of the loop; the log keeps the entries written inside the \<open>switch\<close>.
\<close>

record FileInfo =
  fi_path :: string
  fi_name :: string
  extension :: string

datatype LanguageParser = PythonAstParser | CCppParser | JavaParser | GoParser | CSharpParser

datatype LogEntry =
  DebugAddingTsFile string
| WarnUnsupportedFileType string string
| InfoSkippingSqlFile string

record DispatchState =
  parserCalls :: "(LanguageParser \<times> FileInfo) list"
  tsFilesToAdd :: "string list"
  dispatchLog :: "LogEntry list"

definition dispatchFile :: "string list \<Rightarrow> FileInfo \<Rightarrow> DispatchState \<Rightarrow> DispatchState" where
  "dispatchFile supported file st =
     (let ext = extension file in
      if ext = ''.py'' then st\<lparr>parserCalls := parserCalls st @ [(PythonAstParser, file)]\<rparr>
      else if ext = ''.c'' \<or> ext = ''.cpp'' \<or> ext = ''.h'' \<or> ext = ''.hpp''
        then st\<lparr>parserCalls := parserCalls st @ [(CCppParser, file)]\<rparr>
      else if ext = ''.java'' then st\<lparr>parserCalls := parserCalls st @ [(JavaParser, file)]\<rparr>
      else if ext = ''.go'' then st\<lparr>parserCalls := parserCalls st @ [(GoParser, file)]\<rparr>
      else if ext = ''.cs'' then st\<lparr>parserCalls := parserCalls st @ [(CSharpParser, file)]\<rparr>
      else if ext = ''.ts'' \<or> ext = ''.tsx'' \<or> ext = ''.js'' \<or> ext = ''.jsx'' \<or> ext = ''.mjs'' \<or> ext = ''.cjs''
        then st\<lparr>tsFilesToAdd := tsFilesToAdd st @ [fi_path file],
                dispatchLog := dispatchLog st @ [DebugAddingTsFile (fi_path file)]\<rparr>
      else (let supportedNonSql = filter (\<lambda>e. e \<noteq> ''.sql'') supported in
            if ext \<notin> set supportedNonSql
              then st\<lparr>dispatchLog := dispatchLog st @ [WarnUnsupportedFileType ext (fi_path file)]\<rparr>
            else if ext = ''.sql''
              then st\<lparr>dispatchLog := dispatchLog st @ [InfoSkippingSqlFile (fi_path file)]\<rparr>
            else st))"

definition parseFiles :: "string list \<Rightarrow> FileInfo list \<Rightarrow> DispatchState" where
  "parseFiles supported files =
     fold (dispatchFile supported) files \<lparr>parserCalls = [], tsFilesToAdd = [], dispatchLog = []\<rparr>"

section \<open>Cyclomatic complexity (src/analyzer/analysis/complexity-analyzer.ts)\<close>

text \<open>
  A syntax tree node has a kind and children; a binary expression carries the kind of
  its operator token.  \<open>forEachDescendant\<close> calls the callback on every descendant in
  depth-first pre-order; the callback of \<open>calculateCyclomaticComplexity\<close> increments the
  local variable \<open>complexity\<close>, which the model threads through the traversal.
\<close>

datatype OperatorToken = AmpersandAmpersandToken | BarBarToken | QuestionQuestionToken | OtherToken

datatype SyntaxKind =
  IfStatement | ForStatement | ForInStatement | ForOfStatement | WhileStatement | DoStatement
| CaseClause | CatchClause | ConditionalExpression
| BinaryExpression OperatorToken
| OtherKind

datatype TsNode = TsNode SyntaxKind "TsNode list"

fun getKind :: "TsNode \<Rightarrow> SyntaxKind" where
  "getKind (TsNode k cs) = k"

fun forEachDescendant :: "(TsNode \<Rightarrow> 's \<Rightarrow> 's) \<Rightarrow> TsNode \<Rightarrow> 's \<Rightarrow> 's"
  and forEachOf :: "(TsNode \<Rightarrow> 's \<Rightarrow> 's) \<Rightarrow> TsNode list \<Rightarrow> 's \<Rightarrow> 's" where
  "forEachDescendant cb (TsNode k cs) s = forEachOf cb cs s"
| "forEachOf cb [] s = s"
| "forEachOf cb (c # cs) s = forEachOf cb cs (forEachDescendant cb c (cb c s))"

definition complexityCallback :: "TsNode \<Rightarrow> nat \<Rightarrow> nat" where
  "complexityCallback descendant complexity =
     (let kind = getKind descendant in
      if kind = IfStatement \<or> kind = ForStatement \<or> kind = ForInStatement \<or> kind = ForOfStatement
         \<or> kind = WhileStatement \<or> kind = DoStatement \<or> kind = CaseClause \<or> kind = CatchClause
         \<or> kind = ConditionalExpression
      then complexity + 1
      else (case kind of
              BinaryExpression operatorKind \<Rightarrow>
                if operatorKind = AmpersandAmpersandToken \<or> operatorKind = BarBarToken
                   \<or> operatorKind = QuestionQuestionToken
                then complexity + 1 else complexity
            | _ \<Rightarrow> complexity))"

definition calculateCyclomaticComplexity :: "TsNode option \<Rightarrow> nat" where
  "calculateCyclomaticComplexity node =
     (case node of None \<Rightarrow> 1 | Some n \<Rightarrow> forEachDescendant complexityCallback n 1)"

text \<open>The specification's count: the descendants of a node, and the two kinds it counts.\<close>

fun descendants :: "TsNode \<Rightarrow> TsNode list" where
  "descendants (TsNode k cs) = concat (map (\<lambda>c. c # descendants c) cs)"

definition isBranchingNode :: "TsNode \<Rightarrow> bool" where
  "isBranchingNode n =
     (getKind n \<in> {IfStatement, ForStatement, ForInStatement, ForOfStatement, WhileStatement,
                    DoStatement, CaseClause, CatchClause, ConditionalExpression})"

definition isLogicalBinary :: "TsNode \<Rightarrow> bool" where
  "isLogicalBinary n =
     (getKind n \<in> {BinaryExpression AmpersandAmpersandToken, BinaryExpression BarBarToken,
                    BinaryExpression QuestionQuestionToken})"

section \<open>The write phase: \<open>AnalyzerService.analyze\<close> and \<open>StorageManager\<close>\<close>

text \<open>
  A committed transaction is a node batch or a relationship batch of one type.  The
  store is a parameter: \<open>runTransaction\<close> tells whether a transaction commits; when it
  does not, the storage manager throws and \<open>analyze\<close> stops.  The functions thread the
  log of committed transactions and return it with a flag, \<open>False\<close> after a failed
  transaction.  The batch loops advance the index by the batch size; with a batch size
  of 0 the source loop does not end, so the loops are partial functions and \<open>None\<close>
  stands for a run that does not return.  The batches keep the records themselves; the
  source sends their prepared property maps, one per record.
\<close>

datatype Transaction = NodeBatch "AstNode list" | RelBatch string "RelationshipInfo list"

definition slice :: "'a list \<Rightarrow> nat \<Rightarrow> nat \<Rightarrow> 'a list" where
  "slice xs i j = take (j - i) (drop i xs)"

partial_function (option) saveNodesLoop ::
  "(Transaction \<Rightarrow> bool) \<Rightarrow> nat \<Rightarrow> AstNode list \<Rightarrow> nat \<Rightarrow> Transaction list \<Rightarrow> (Transaction list \<times> bool) option" where
  "saveNodesLoop runTransaction batchSize ns i log =
     (if i < length ns then
        (if slice ns i (i + batchSize) = [] then saveNodesLoop runTransaction batchSize ns (i + batchSize) log
         else if runTransaction (NodeBatch (slice ns i (i + batchSize)))
           then saveNodesLoop runTransaction batchSize ns (i + batchSize)
                  (log @ [NodeBatch (slice ns i (i + batchSize))])
         else Some (log, False))
      else Some (log, True))"

definition saveNodesBatch ::
  "(Transaction \<Rightarrow> bool) \<Rightarrow> nat \<Rightarrow> AstNode list \<Rightarrow> Transaction list \<Rightarrow> (Transaction list \<times> bool) option" where
  "saveNodesBatch runTransaction batchSize ns log =
     (if ns = [] then Some (log, True) else saveNodesLoop runTransaction batchSize ns 0 log)"

partial_function (option) saveRelationshipsLoop ::
  "(Transaction \<Rightarrow> bool) \<Rightarrow> nat \<Rightarrow> string \<Rightarrow> RelationshipInfo list \<Rightarrow> nat \<Rightarrow> Transaction list
     \<Rightarrow> (Transaction list \<times> bool) option" where
  "saveRelationshipsLoop runTransaction batchSize relationshipType rels i log =
     (if i < length rels then
        (if slice rels i (i + batchSize) = []
           then saveRelationshipsLoop runTransaction batchSize relationshipType rels (i + batchSize) log
         else if runTransaction (RelBatch relationshipType (slice rels i (i + batchSize)))
           then saveRelationshipsLoop runTransaction batchSize relationshipType rels (i + batchSize)
                  (log @ [RelBatch relationshipType (slice rels i (i + batchSize))])
         else Some (log, False))
      else Some (log, True))"

definition saveRelationshipsBatch ::
  "(Transaction \<Rightarrow> bool) \<Rightarrow> nat \<Rightarrow> string \<Rightarrow> RelationshipInfo list \<Rightarrow> Transaction list
     \<Rightarrow> (Transaction list \<times> bool) option" where
  "saveRelationshipsBatch runTransaction batchSize relationshipType rels log =
     (if rels = [] then Some (log, True)
      else saveRelationshipsLoop runTransaction batchSize relationshipType rels 0 log)"

text \<open>
  \<open>relationshipsByType\<close> is an object keyed by the relationship type; the model keeps
  its keys in the order of their first use, which is the enumeration order of
  \<open>for ... in\<close> for keys that are not array indices.
\<close>

definition groupByType :: "RelationshipInfo list \<Rightarrow> (string \<times> RelationshipInfo list) list" where
  "groupByType rels =
     fold (\<lambda>rel byType.
             (case map_of byType (rel_type rel) of
                None \<Rightarrow> byType @ [(rel_type rel, [rel])]
              | Some batch \<Rightarrow> map_set (rel_type rel) (batch @ [rel]) byType))
          rels []"

fun saveGroups ::
  "(Transaction \<Rightarrow> bool) \<Rightarrow> nat \<Rightarrow> (string \<times> RelationshipInfo list) list \<Rightarrow> Transaction list
     \<Rightarrow> (Transaction list \<times> bool) option" where
  "saveGroups runTransaction batchSize [] log = Some (log, True)"
| "saveGroups runTransaction batchSize (g # gs) log =
     (case saveRelationshipsBatch runTransaction batchSize (fst g) (snd g) log of
        None \<Rightarrow> None
      | Some r \<Rightarrow> if snd r then saveGroups runTransaction batchSize gs (fst r) else Some r)"

text \<open>
  Step 5 of \<open>analyze\<close>: the relationships of both passes are made unique by entity id,
  the nodes are saved, and then the relationships, type by type.
\<close>

definition storeResults ::
  "(Transaction \<Rightarrow> bool) \<Rightarrow> nat \<Rightarrow> AstNode list \<Rightarrow> RelationshipInfo list \<Rightarrow> RelationshipInfo list
     \<Rightarrow> (Transaction list \<times> bool) option" where
  "storeResults runTransaction batchSize finalNodes pass1Relationships pass2Relationships =
     (let finalRelationships = pass1Relationships @ pass2Relationships;
          uniqueRelationships =
            map_values (map_from_entries (map (\<lambda>r. (rel_entityId r, r)) finalRelationships))
      in case saveNodesBatch runTransaction batchSize finalNodes [] of
           None \<Rightarrow> None
         | Some r \<Rightarrow> if snd r then saveGroups runTransaction batchSize (groupByType uniqueRelationships) (fst r)
                     else Some r)"

fun batchLength :: "Transaction \<Rightarrow> nat" where
  "batchLength (NodeBatch ns) = length ns"
| "batchLength (RelBatch ty rels) = length rels"

fun isNodeBatch :: "Transaction \<Rightarrow> bool" where
  "isNodeBatch (NodeBatch ns) = True"
| "isNodeBatch (RelBatch ty rels) = False"

text \<open>Once a relationship batch has been committed, only relationship batches follow.\<close>

definition nodesBeforeRelationships :: "Transaction list \<Rightarrow> bool" where
  "nodesBeforeRelationships log = list_all (\<lambda>t. \<not> isNodeBatch t) (dropWhile isNodeBatch log)"

section \<open>Entity ids and paths (src/analyzer/parser-utils.ts)\<close>

text \<open>
  The parsers and resolvers take \<open>generateEntityId\<close> from their context, and
  \<open>resolveImportPath\<close> likewise; both are parameters of the modelled functions
  (\<open>gen\<close> and \<open>rip\<close>).  Concrete inputs use the two constants below.
\<close>

type_synonym EntityIdGen = "string \<Rightarrow> string \<Rightarrow> string"

type_synonym ImportPathResolver = "string \<Rightarrow> string \<Rightarrow> string"

text \<open>
  Modelled from the spec: \<open>generateEntityId\<close> of \<open>parser-utils.ts\<close>, which is not among
  the sources.  The specification says that an entity id is a deterministic encoding of
  the pair (kind, qualifiedName); the model joins the two with a colon.
\<close>

definition generateEntityId :: EntityIdGen where
  "generateEntityId k qualifiedName = k @ '':'' @ qualifiedName"

text \<open>
  The resolver of the Pass 1 context, \<open>(source, imp) => imp\<close> (src/analyzer/parser.ts).
\<close>

definition resolveImportPathPass1 :: ImportPathResolver where
  "resolveImportPathPass1 source imp = imp"

text \<open>Template literals print a line number in decimal.\<close>

definition digitChar :: "nat \<Rightarrow> char" where
  "digitChar d = ''0123456789'' ! d"

fun showNat :: "nat \<Rightarrow> string" where
  "showNat n = (if n < 10 then [digitChar n] else showNat (n div 10) @ [digitChar (n mod 10)])"

declare showNat.simps [simp del]

definition showInt :: "int \<Rightarrow> string" where
  "showInt i = (if i < 0 then ''-'' @ showNat (nat (- i)) else showNat (nat i))"

text \<open>\<open>path.replace(/\\/g, '/')\<close>.\<close>

definition normalizeSlashes :: "string \<Rightarrow> string" where
  "normalizeSlashes p = map (\<lambda>c. if c = CHR 0x5C then CHR ''/'' else c) p"

text \<open>\<open>path.basename\<close> of a file path that does not end with a separator.\<close>

definition basename :: "string \<Rightarrow> string" where
  "basename p = rev (takeWhile (\<lambda>c. c \<noteq> CHR ''/'') (rev p))"

text \<open>\<open>String.prototype.toLowerCase\<close> on the ASCII letters of a kind name.\<close>

definition toLowerCase :: "string \<Rightarrow> string" where
  "toLowerCase s =
     map (\<lambda>c. case map_of (zip ''ABCDEFGHIJKLMNOPQRSTUVWXYZ'' ''abcdefghijklmnopqrstuvwxyz'') c of
                 Some l \<Rightarrow> l | None \<Rightarrow> c) s"

section \<open>Pass 1 for TypeScript (src/analyzer/parser.ts and src/analyzer/parsers)\<close>

text \<open>
  The parsers of one file share the accumulating \<open>SingleFileParseResult\<close>; each is a
  function from the result to the result.
\<close>

definition addNode :: "AstNode \<Rightarrow> SingleFileParseResult \<Rightarrow> SingleFileParseResult" where
  "addNode node result = result\<lparr>nodes := nodes result @ [node]\<rparr>"

definition addParsedRelationship :: "RelationshipInfo \<Rightarrow> SingleFileParseResult \<Rightarrow> SingleFileParseResult" where
  "addParsedRelationship rel result = result\<lparr>relationships := relationships result @ [rel]\<rparr>"

text \<open>The file node of \<open>_parseTsProjectFiles\<close>.\<close>

definition makeFileNode :: "EntityIdGen \<Rightarrow> SourceFile \<Rightarrow> AstNode" where
  "makeFileNode gen sourceFile =
     (let filePath = normalizeSlashes (sf_filePath sourceFile) in
      \<lparr>entityId = gen ''file'' filePath, kind = ''File'', name = basename filePath,
       filePath = filePath,
       language = (if languageVariant sourceFile = JSX then ''TSX'' else ''TypeScript''),
       startLine = 1, endLine = sf_endLine sourceFile, isExported = None, properties = None\<rparr>)"

text \<open>\<open>parseImports\<close> (src/analyzer/parsers/import-parser.ts).\<close>

definition optStr :: "string option \<Rightarrow> pval" where
  "optStr v = (case v of None \<Rightarrow> PUndefined | Some s \<Rightarrow> PStr s)"

definition parseImport :: "EntityIdGen \<Rightarrow> AstNode \<Rightarrow> ImportDeclaration \<Rightarrow> SingleFileParseResult \<Rightarrow> SingleFileParseResult" where
  "parseImport gen fileNode declaration result =
     (let moduleSpecifier = moduleSpecifierValue declaration;
          startLine = imp_startLine declaration;
          importName = moduleSpecifier @ '':'' @ showNat startLine;
          qualifiedName = filePath fileNode @ '':'' @ importName;
          entityId = gen ''import'' qualifiedName;
          names = map ni_name (namedImports declaration);
          importNode =
            \<lparr>entityId = entityId, kind = ''Import'', name = importName, filePath = filePath fileNode,
             language = ''TypeScript'', startLine = startLine, endLine = imp_endLine declaration,
             isExported = None,
             properties = Some [(''moduleSpecifier'', PStr moduleSpecifier),
                                (''namedImports'', if names \<noteq> [] then PStrs names else PUndefined),
                                (''defaultImport'', optStr (defaultImport declaration)),
                                (''namespaceImport'', optStr (namespaceImport declaration)),
                                (''isTypeOnly'', PBool (isTypeOnly declaration))]\<rparr>;
          importRel =
            \<lparr>rel_entityId = gen ''imports'' (AstNode.entityId fileNode @ '':'' @ entityId),
             rel_type = ''IMPORTS'', sourceId = AstNode.entityId fileNode, targetId = entityId,
             weight = 1, rel_properties = None\<rparr>
      in addParsedRelationship importRel (addNode importNode result))"

definition parseImports :: "EntityIdGen \<Rightarrow> SourceFile \<Rightarrow> AstNode \<Rightarrow> SingleFileParseResult \<Rightarrow> SingleFileParseResult" where
  "parseImports gen sourceFile fileNode result =
     fold (parseImport gen fileNode) (importDeclarations sourceFile) result"

text \<open>\<open>parseParameters\<close> (src/analyzer/parsers/parameter-parser.ts).\<close>

definition parseParameter :: "EntityIdGen \<Rightarrow> AstNode \<Rightarrow> ParameterDeclaration \<Rightarrow> SingleFileParseResult \<Rightarrow> SingleFileParseResult" where
  "parseParameter gen parentNode param result =
     (let name = (if param_name param = [] then ''anonymousParam'' else param_name param);
          qualifiedName = AstNode.entityId parentNode @ '':'' @ name;
          entityId = gen ''parameter'' qualifiedName;
          paramNode =
            \<lparr>entityId = entityId, kind = ''Parameter'', name = name, filePath = filePath parentNode,
             language = ''TypeScript'', startLine = param_startLine param, endLine = param_endLine param,
             isExported = None,
             properties = Some [(''parentId'', PStr (AstNode.entityId parentNode))]\<rparr>
      in if \<not> list_ex (\<lambda>n. AstNode.entityId n = entityId) (nodes result)
         then addParsedRelationship
                \<lparr>rel_entityId = gen ''has_parameter'' (AstNode.entityId parentNode @ '':'' @ entityId),
                 rel_type = ''HAS_PARAMETER'', sourceId = AstNode.entityId parentNode, targetId = entityId,
                 weight = 8, rel_properties = None\<rparr>
                (addNode paramNode result)
         else result)"

definition parseParameters :: "EntityIdGen \<Rightarrow> FunctionLike \<Rightarrow> AstNode \<Rightarrow> SingleFileParseResult \<Rightarrow> SingleFileParseResult" where
  "parseParameters gen declarationNode parentNode result =
     fold (parseParameter gen parentNode) (fl_parameters declarationNode) result"

text \<open>\<open>parseFunctions\<close> (src/analyzer/parsers/function-parser.ts).\<close>

definition isWordChar :: "char \<Rightarrow> bool" where
  "isWordChar c =
     (let n = (of_char c :: nat)
      in (97 \<le> n \<and> n \<le> 122) \<or> (65 \<le> n \<and> n \<le> 90) \<or> (48 \<le> n \<and> n \<le> 57) \<or> n = 95)"

definition callbackName :: "CallExprAncestor \<Rightarrow> string" where
  "callbackName callExprArg =
     (let safeCallingFuncName =
            take 30 (map (\<lambda>c. if isWordChar c then c else CHR ''_'') (ce_calleeText callExprArg))
      in ''callback_'' @ safeCallingFuncName @ ''_arg'' @ showInt (ce_argIndex callExprArg))"

definition functionNode :: "EntityIdGen \<Rightarrow> AstNode \<Rightarrow> FunctionLike \<Rightarrow> AstNode" where
  "functionNode gen fileNode declaration =
     (let fromVariable = (fl_kind declaration \<noteq> FunctionDeclarationK \<and> fl_variableDecl declaration \<noteq> None);
          isCallback = (fl_kind declaration \<noteq> FunctionDeclarationK \<and> fl_variableDecl declaration = None
                        \<and> fl_callExpr declaration \<noteq> None);
          name =
            (if fl_kind declaration = FunctionDeclarationK
             then (case fl_name declaration of Some n \<Rightarrow> n | None \<Rightarrow> ''anonymousFuncDecl'')
             else (case fl_variableDecl declaration of
                     Some variableDecl \<Rightarrow> vd_name variableDecl
                   | None \<Rightarrow> (case fl_callExpr declaration of
                                Some callExprArg \<Rightarrow> callbackName callExprArg
                              | None \<Rightarrow> ''anonymousLambda'')));
          isExported =
            (if fl_kind declaration = FunctionDeclarationK then fl_isExported declaration
             else (case fl_variableDecl declaration of
                     Some variableDecl \<Rightarrow>
                       (case vd_statementExported variableDecl of Some b \<Rightarrow> b | None \<Rightarrow> False)
                   | None \<Rightarrow> False));
          startLine = (if fromVariable then vd_startLine (the (fl_variableDecl declaration))
                       else fl_startLine declaration);
          endLine = (if fromVariable then vd_endLine (the (fl_variableDecl declaration))
                     else fl_endLine declaration);
          uniqueQualifiedName = filePath fileNode @ '':'' @ name @ '':'' @ showNat startLine
      in \<lparr>entityId = gen ''function'' uniqueQualifiedName, kind = ''Function'', name = name,
          filePath = filePath fileNode, language = ''TypeScript'', startLine = startLine,
          endLine = endLine, isExported = Some isExported,
          properties = Some [(''isCallback'', PBool isCallback)]\<rparr>)"

definition parseFunction :: "EntityIdGen \<Rightarrow> AstNode \<Rightarrow> FunctionLike \<Rightarrow> SingleFileParseResult \<Rightarrow> SingleFileParseResult" where
  "parseFunction gen fileNode declaration result =
     parseParameters gen declaration (functionNode gen fileNode declaration)
       (addNode (functionNode gen fileNode declaration) result)"

definition parseFunctions :: "EntityIdGen \<Rightarrow> SourceFile \<Rightarrow> AstNode \<Rightarrow> SingleFileParseResult \<Rightarrow> SingleFileParseResult" where
  "parseFunctions gen sourceFile fileNode result =
     fold (parseFunction gen fileNode) (functionLikes sourceFile) result"

text \<open>
  \<open>parseVariables\<close> (src/analyzer/parsers/variable-parser.ts): the body of the inner
  loop yields the node of one declaration, or nothing for a declaration whose
  initializer is a function expression or an arrow function.
\<close>

definition variableNode :: "EntityIdGen \<Rightarrow> AstNode \<Rightarrow> VariableStatement \<Rightarrow> VariableDeclaration \<Rightarrow> AstNode option" where
  "variableNode gen fileNode statement declaration =
     (if initializer declaration = FunctionExpressionInit \<or> initializer declaration = ArrowFunctionInit
      then None
      else (let name = var_name declaration;
                qualifiedName = filePath fileNode @ '':'' @ name;
                uniqueQualifiedName = qualifiedName @ '':'' @ showNat (var_startLine declaration)
            in Some \<lparr>entityId = gen ''variable'' uniqueQualifiedName, kind = ''Variable'', name = name,
                     filePath = filePath fileNode, language = ''TypeScript'',
                     startLine = var_startLine declaration, endLine = var_endLine declaration,
                     isExported = Some (vs_isExported statement), properties = None\<rparr>))"

definition parseVariables :: "EntityIdGen \<Rightarrow> SourceFile \<Rightarrow> AstNode \<Rightarrow> SingleFileParseResult \<Rightarrow> SingleFileParseResult" where
  "parseVariables gen sourceFile fileNode result =
     fold (\<lambda>statement result.
             fold (\<lambda>declaration result.
                     (case variableNode gen fileNode statement declaration of
                        None \<Rightarrow> result
                      | Some vnode \<Rightarrow> addNode vnode result))
                  (declarations statement) result)
          (variableStatements sourceFile) result"

text \<open>
  The body of the loop of \<open>_parseTsProjectFiles\<close> for one target file, and the loop
  itself, which fills the map \<open>tsResults\<close>.  The calls of \<open>parseClasses\<close>,
  \<open>parseInterfaces\<close>, \<open>parseTypeAliases\<close> and \<open>parseJsx\<close> add nothing for a file of
  the modelled fragment and are left out.
\<close>

definition parseTsFile :: "EntityIdGen \<Rightarrow> SourceFile \<Rightarrow> SingleFileParseResult" where
  "parseTsFile gen sourceFile =
     (let fileNode = makeFileNode gen sourceFile;
          result = \<lparr>res_filePath = filePath fileNode, nodes = [fileNode], relationships = []\<rparr>
      in parseVariables gen sourceFile fileNode
           (parseFunctions gen sourceFile fileNode
              (parseImports gen sourceFile fileNode result)))"

definition parseTsProjectFiles ::
  "EntityIdGen \<Rightarrow> Project \<Rightarrow> string list \<Rightarrow> (string, SingleFileParseResult) jsmap" where
  "parseTsProjectFiles gen project targetFiles =
     fold (\<lambda>sourceFile tsResults.
             (let filePath = normalizeSlashes (sf_filePath sourceFile)
              in if filePath \<in> set targetFiles
                 then map_set filePath (parseTsFile gen sourceFile) tsResults
                 else tsResults))
          project []"

section \<open>Symbol resolution: \<open>getTargetDeclarationInfo\<close> (src/analyzer/analysis/analyzer-utils.ts)\<close>

text \<open>
  The TypeScript language service resolves an expression to a symbol (after following
  an import alias) with its declarations; the function looks at the first declaration.
  The model takes the resolved symbol, \<open>None\<close> when the expression has none.  A
  declaration carries what the branch that handles it reads.
\<close>

datatype ContainerKind = ClassContainer "string option" | InterfaceContainer string | OtherContainer

record EnclosingFunction =
  ef_name :: "string option"
  ef_filePath :: string
  ef_startLine :: nat

datatype Declaration =
  FunctionDeclarationD "string option" nat
| FunctionExpressionD "string option" nat
| ArrowFunctionD nat
| MethodD string ContainerKind
| ClassD "string option"
| InterfaceD string
| VariableD VariableDeclaration
| ParameterD string "EnclosingFunction option"
| TypeAliasD string
| EnumD string
| EnumMemberD string string
| OtherD

record ResolvedSymbol =
  sym_name :: string
  sym_declarations :: "Declaration list"
  sym_declFilePath :: string

record TargetDeclarationInfo =
  tdi_name :: string
  tdi_kind :: string
  tdi_filePath :: string
  tdi_entityId :: string

text \<open>\<open>declaration.getStartLineNumber()\<close>, read for the declarations of kind Function.\<close>

fun declStartLine :: "Declaration \<Rightarrow> nat" where
  "declStartLine (FunctionDeclarationD n l) = l"
| "declStartLine (FunctionExpressionD n l) = l"
| "declStartLine (ArrowFunctionD l) = l"
| "declStartLine (VariableD d) = var_startLine d"
| "declStartLine _ = 0"

text \<open>The kind, the name and the base qualified name of the chain of type guards.\<close>

fun classify :: "ImportPathResolver \<Rightarrow> string \<Rightarrow> string \<Rightarrow> string \<Rightarrow> Declaration \<Rightarrow> string \<times> string \<times> string" where
  "classify rip currentFilePath resolvedFilePath symName (FunctionDeclarationD n l) =
     (let name' = (case n of Some x \<Rightarrow> x | None \<Rightarrow> symName)
      in (''Function'', name', resolvedFilePath @ '':'' @ name'))"
| "classify rip currentFilePath resolvedFilePath symName (FunctionExpressionD n l) =
     (let name' = (case n of Some x \<Rightarrow> x | None \<Rightarrow> symName)
      in (''Function'', name', resolvedFilePath @ '':'' @ name'))"
| "classify rip currentFilePath resolvedFilePath symName (ArrowFunctionD l) =
     (''Function'', symName, resolvedFilePath @ '':'' @ symName)"
| "classify rip currentFilePath resolvedFilePath symName (MethodD n parent) =
     (''Method'', n,
      (case parent of
         ClassContainer parentName \<Rightarrow>
           resolvedFilePath @ '':'' @ (case parentName of Some p \<Rightarrow> p | None \<Rightarrow> ''AnonymousContainer'')
             @ ''.'' @ n
       | InterfaceContainer parentName \<Rightarrow> resolvedFilePath @ '':'' @ parentName @ ''.'' @ n
       | OtherContainer \<Rightarrow> resolvedFilePath @ '':unknownParent.'' @ n))"
| "classify rip currentFilePath resolvedFilePath symName (ClassD n) =
     (let name' = (case n of Some x \<Rightarrow> x | None \<Rightarrow> symName)
      in (''Class'', name', resolvedFilePath @ '':'' @ name'))"
| "classify rip currentFilePath resolvedFilePath symName (InterfaceD n) =
     (''Interface'', n, resolvedFilePath @ '':'' @ n)"
| "classify rip currentFilePath resolvedFilePath symName (VariableD d) =
     (if initializer d = FunctionExpressionInit \<or> initializer d = ArrowFunctionInit
      then (''Function'', var_name d, resolvedFilePath @ '':'' @ var_name d)
      else (''Variable'', var_name d, resolvedFilePath @ '':'' @ var_name d))"
| "classify rip currentFilePath resolvedFilePath symName (ParameterD n funcOrMethod) =
     (''Parameter'', n,
      (case funcOrMethod of
         Some f \<Rightarrow>
           (let parentName = (case ef_name f of
                                Some p \<Rightarrow> if p \<noteq> [] then p else ''anonymousParent''
                              | None \<Rightarrow> ''anonymousParent'');
                resolvedParentFilePath = normalizeSlashes (rip currentFilePath (ef_filePath f));
                parentQualifiedName = resolvedParentFilePath @ '':'' @ parentName @ '':''
                                        @ showNat (ef_startLine f)
            in parentQualifiedName @ '':'' @ n)
       | None \<Rightarrow> resolvedFilePath @ '':unknownParent:'' @ n))"
| "classify rip currentFilePath resolvedFilePath symName (TypeAliasD n) =
     (''TypeAlias'', n, resolvedFilePath @ '':'' @ n)"
| "classify rip currentFilePath resolvedFilePath symName (EnumD n) =
     (''TypeAlias'', n, resolvedFilePath @ '':'' @ n)"
| "classify rip currentFilePath resolvedFilePath symName (EnumMemberD enumName n) =
     (''TypeAlias'', enumName @ ''.'' @ n, resolvedFilePath @ '':'' @ enumName)"
| "classify rip currentFilePath resolvedFilePath symName OtherD =
     (''unknown'', symName, resolvedFilePath @ '':'' @ symName)"

definition getTargetDeclarationInfo ::
  "EntityIdGen \<Rightarrow> ImportPathResolver \<Rightarrow> ResolvedSymbol option \<Rightarrow> string \<Rightarrow> TargetDeclarationInfo option" where
  "getTargetDeclarationInfo gen rip symbol currentFilePath =
     (case symbol of
        None \<Rightarrow> None
      | Some resolved \<Rightarrow>
          (case sym_declarations resolved of
             [] \<Rightarrow> None
           | declaration # _ \<Rightarrow>
               (let resolvedFilePath = normalizeSlashes (rip currentFilePath (sym_declFilePath resolved));
                    c = classify rip currentFilePath resolvedFilePath (sym_name resolved) declaration;
                    kind = fst c;
                    name = fst (snd c);
                    qualifiedNameForId =
                      (if kind = ''Function'' then snd (snd c) @ '':'' @ showNat (declStartLine declaration)
                       else snd (snd c))
                in if kind = ''unknown'' then None
                   else Some \<lparr>tdi_name = name, tdi_kind = kind, tdi_filePath = resolvedFilePath,
                              tdi_entityId = gen (toLowerCase kind) qualifiedNameForId\<rparr>)))"

section \<open>Pass 2 resolvers (src/analyzer/resolvers)\<close>

text \<open>\<open>findNodeByFilePath\<close> of ts-resolver.ts.\<close>

definition findNodeByFilePath :: "EntityIdGen \<Rightarrow> (string, AstNode) jsmap \<Rightarrow> string \<Rightarrow> AstNode option" where
  "findNodeByFilePath gen nodeIndex path =
     (let normalizedPath = normalizeSlashes path;
          identifierForEntityId = (if normalizedPath \<noteq> [] \<and> hd normalizedPath = CHR ''/''
                                   then normalizedPath else path)
      in case map_get nodeIndex (gen ''file'' identifierForEntityId) of
           Some n \<Rightarrow> Some n
         | None \<Rightarrow> map_get nodeIndex (gen ''pythonmodule'' identifierForEntityId))"

text \<open>
  The import half of \<open>resolveTsModules\<close>: the loop over the import declarations of the
  file.  The export half (the loops over export declarations and export assignments)
  submits \<open>EXPORTS\<close> relationships only and is not modelled.  The candidate kinds of a
  named import are tried in the order function, class, interface, variable.
\<close>

definition lookupNamedTarget :: "EntityIdGen \<Rightarrow> (string, AstNode) jsmap \<Rightarrow> AstNode \<Rightarrow> string \<Rightarrow> AstNode option" where
  "lookupNamedTarget gen nodeIndex targetFileNode importName =
     (case map_get nodeIndex (gen ''function'' (filePath targetFileNode @ '':'' @ importName)) of
        Some n \<Rightarrow> Some n
      | None \<Rightarrow>
     (case map_get nodeIndex (gen ''class'' (filePath targetFileNode @ '':'' @ importName)) of
        Some n \<Rightarrow> Some n
      | None \<Rightarrow>
     (case map_get nodeIndex (gen ''interface'' (filePath targetFileNode @ '':'' @ importName)) of
        Some n \<Rightarrow> Some n
      | None \<Rightarrow> map_get nodeIndex (gen ''variable'' (filePath targetFileNode @ '':'' @ importName)))))"

definition resolveNamedImport ::
  "EntityIdGen \<Rightarrow> (string, AstNode) jsmap \<Rightarrow> AstNode \<Rightarrow> AstNode \<Rightarrow> NamedImport \<Rightarrow> RelationshipInfo list" where
  "resolveNamedImport gen nodeIndex importAstNode targetFileNode namedImport =
     (let importName = ni_name namedImport in
      case lookupNamedTarget gen nodeIndex targetFileNode importName of
        None \<Rightarrow> []
      | Some targetNode \<Rightarrow>
          if truthy (getProp targetNode ''isExported'') \<or> truthy (getProp targetNode ''isDefaultExport'')
          then [\<lparr>rel_entityId = gen ''resolves_import'' (entityId importAstNode @ '':'' @ entityId targetNode),
                 rel_type = ''RESOLVES_IMPORT'', sourceId = entityId importAstNode,
                 targetId = entityId targetNode, weight = 8,
                 rel_properties = Some [(''importedSymbol'',
                                           PStr (case ni_alias namedImport of Some a \<Rightarrow> a | None \<Rightarrow> importName)),
                                         (''targetSymbol'', PStr importName)]\<rparr>]
          else [])"

definition resolveDefaultImport ::
  "EntityIdGen \<Rightarrow> (string, AstNode) jsmap \<Rightarrow> AstNode \<Rightarrow> AstNode \<Rightarrow> string \<Rightarrow> RelationshipInfo list" where
  "resolveDefaultImport gen nodeIndex importAstNode targetFileNode defaultImportName =
     (case find (\<lambda>n. filePath n = filePath targetFileNode \<and> getProp n ''isDefaultExport'' = Some (PBool True))
             (map_values nodeIndex) of
        None \<Rightarrow> []
      | Some targetNode \<Rightarrow>
          [\<lparr>rel_entityId = gen ''resolves_import''
                             (entityId importAstNode @ '':'' @ entityId targetNode @ '':default''),
            rel_type = ''RESOLVES_IMPORT'', sourceId = entityId importAstNode,
            targetId = entityId targetNode, weight = 8,
            rel_properties = Some [(''importedSymbol'', PStr defaultImportName),
                                    (''isDefaultImport'', PBool True)]\<rparr>])"

definition resolveNamespaceImport ::
  "EntityIdGen \<Rightarrow> AstNode \<Rightarrow> AstNode \<Rightarrow> string \<Rightarrow> RelationshipInfo list" where
  "resolveNamespaceImport gen importAstNode targetFileNode namespaceImportName =
     [\<lparr>rel_entityId = gen ''resolves_import''
                        (entityId importAstNode @ '':'' @ entityId targetFileNode @ '':namespace''),
       rel_type = ''RESOLVES_IMPORT'', sourceId = entityId importAstNode,
       targetId = entityId targetFileNode, weight = 8,
       rel_properties = Some [(''importedSymbol'', PStr namespaceImportName),
                               (''isNamespaceImport'', PBool True)]\<rparr>]"

definition resolveImportDeclaration ::
  "EntityIdGen \<Rightarrow> ImportPathResolver \<Rightarrow> AstNode \<Rightarrow> (string, AstNode) jsmap \<Rightarrow> ImportDeclaration
     \<Rightarrow> RelationshipInfo list" where
  "resolveImportDeclaration gen rip fileNode nodeIndex impDecl =
     (let moduleSpecifier = moduleSpecifierValue impDecl in
      if moduleSpecifier = [] then []
      else
        (let resolvedImportPath = (case moduleSpecifierSourceFile impDecl of
                                     Some p \<Rightarrow> p
                                   | None \<Rightarrow> rip (filePath fileNode) moduleSpecifier);
             targetFileNode = findNodeByFilePath gen nodeIndex resolvedImportPath;
             targetFileEntityId = (case targetFileNode of
                                     Some t \<Rightarrow> entityId t
                                   | None \<Rightarrow> gen ''file'' resolvedImportPath);
             importedSymbolsForRel =
               map (\<lambda>ni. case ni_alias ni of Some a \<Rightarrow> a | None \<Rightarrow> ni_name ni) (namedImports impDecl)
               @ (case defaultImport impDecl of Some d \<Rightarrow> if d \<noteq> [] then [d] else [] | None \<Rightarrow> [])
               @ (case namespaceImport impDecl of Some n \<Rightarrow> if n \<noteq> [] then [n] else [] | None \<Rightarrow> []);
             importsRel =
               \<lparr>rel_entityId = gen ''imports'' (entityId fileNode @ '':'' @ targetFileEntityId),
                rel_type = ''IMPORTS'', sourceId = entityId fileNode, targetId = targetFileEntityId,
                weight = 5,
                rel_properties = Some [(''moduleSpecifier'', PStr moduleSpecifier),
                                        (''resolvedPath'', PStr resolvedImportPath),
                                        (''isPlaceholder'', PBool (targetFileNode = None)),
                                        (''isDynamicImport'', PBool False),
                                        (''isTypeOnly'', PBool (isTypeOnly impDecl)),
                                        (''importedSymbols'',
                                           if importedSymbolsForRel \<noteq> [] then PStrs importedSymbolsForRel
                                           else PUndefined)]\<rparr>;
             importAstNodeEntityId =
               gen ''import'' (filePath fileNode @ '':'' @ moduleSpecifier @ '':'' @ showNat (imp_startLine impDecl))
         in importsRel #
            (case map_get nodeIndex importAstNodeEntityId of
               None \<Rightarrow> []
             | Some importAstNode \<Rightarrow>
                 (case targetFileNode of
                    None \<Rightarrow> []
                  | Some targetFile \<Rightarrow>
                      concat (map (resolveNamedImport gen nodeIndex importAstNode targetFile)
                                (namedImports impDecl))
                      @ (case defaultImport impDecl of
                           Some d \<Rightarrow> if d \<noteq> [] then resolveDefaultImport gen nodeIndex importAstNode targetFile d
                                     else []
                         | None \<Rightarrow> [])
                      @ (case namespaceImport impDecl of
                           Some n \<Rightarrow> if n \<noteq> [] then resolveNamespaceImport gen importAstNode targetFile n
                                     else []
                         | None \<Rightarrow> [])))))"

definition resolveTsModules :: "EntityIdGen \<Rightarrow> ImportPathResolver \<Rightarrow> Resolver" where
  "resolveTsModules gen rip sourceFile fileNode nodeIndex =
     concat (map (resolveImportDeclaration gen rip fileNode nodeIndex) (importDeclarations sourceFile))"

text \<open>
  \<open>resolveCIncludes\<close> (src/analyzer/resolvers/c-cpp-resolver.ts).  The include path is
  a string property of the directive node; a directive without one is skipped.
\<close>

definition includeRelationship :: "EntityIdGen \<Rightarrow> AstNode \<Rightarrow> AstNode \<Rightarrow> RelationshipInfo list" where
  "includeRelationship gen fileNode directiveNode =
     (case getProp directiveNode ''includePath'' of
        Some (PStr includePath) \<Rightarrow>
          if includePath = [] then []
          else (let targetFileEntityId = gen ''file'' includePath;
                    isPlaceholder = True
                in [\<lparr>rel_entityId = gen ''includes'' (entityId fileNode @ '':'' @ targetFileEntityId),
                      rel_type = ''INCLUDES'', sourceId = entityId fileNode, targetId = targetFileEntityId,
                      weight = 4,
                      rel_properties = Some [(''includePath'', PStr includePath),
                                              (''isSystemInclude'',
                                                 (case getProp directiveNode ''isSystemInclude'' of
                                                    Some v \<Rightarrow> v | None \<Rightarrow> PUndefined)),
                                              (''isPlaceholder'', PBool isPlaceholder)]\<rparr>])
      | _ \<Rightarrow> [])"

definition resolveCIncludes :: "EntityIdGen \<Rightarrow> Resolver" where
  "resolveCIncludes gen sourceFile fileNode nodeIndex =
     (if language fileNode \<noteq> ''C'' \<and> language fileNode \<noteq> ''C++'' then []
      else (let includeDirectives =
                  filter (\<lambda>node. kind node = ''IncludeDirective'' \<and> filePath node = filePath fileNode)
                    (map_values nodeIndex)
            in concat (map (includeRelationship gen fileNode) includeDirectives)))"

text \<open>
  The reading of the specification for includes: the file node that an include path
  resolves to, first by exact match and then by suffix match on \<open>filePath\<close>.
\<close>

definition isSuffixOf :: "string \<Rightarrow> string \<Rightarrow> bool" where
  "isSuffixOf s p = (length s \<le> length p \<and> drop (length p - length s) p = s)"

definition specIncludeTarget :: "(string, AstNode) jsmap \<Rightarrow> string \<Rightarrow> AstNode option" where
  "specIncludeTarget nodeIndex includePath =
     (case find (\<lambda>n. kind n = ''File'' \<and> filePath n = includePath) (map_values nodeIndex) of
        Some n \<Rightarrow> Some n
      | None \<Rightarrow> find (\<lambda>n. kind n = ''File'' \<and> isSuffixOf includePath (filePath n)) (map_values nodeIndex))"

definition relProp :: "RelationshipInfo \<Rightarrow> string \<Rightarrow> pval option" where
  "relProp r key = (case rel_properties r of None \<Rightarrow> None | Some ps \<Rightarrow> map_of ps key)"

section \<open>Example records\<close>

text \<open>Short constructors for the concrete inputs of the witnesses and counterexamples.\<close>

definition mkNode :: "string \<Rightarrow> string \<Rightarrow> string \<Rightarrow> string \<Rightarrow> string \<Rightarrow> AstNode" where
  "mkNode eid k nm fp lang =
     \<lparr>entityId = eid, kind = k, name = nm, filePath = fp, language = lang,
      startLine = 1, endLine = 1, isExported = None, properties = None\<rparr>"

definition mkRel :: "string \<Rightarrow> string \<Rightarrow> string \<Rightarrow> string \<Rightarrow> RelationshipInfo" where
  "mkRel eid ty src tgt =
     \<lparr>rel_entityId = eid, rel_type = ty, sourceId = src, targetId = tgt,
      weight = 1, rel_properties = None\<rparr>"

definition mkSourceFile :: "string \<Rightarrow> LanguageVariant \<Rightarrow> SourceFile" where
  "mkSourceFile p v =
     \<lparr>sf_filePath = p, languageVariant = v, sf_endLine = 1,
      importDeclarations = [], functionLikes = [], variableStatements = []\<rparr>"

definition ex5_tempDir :: "TempFile list option" where
  "ex5_tempDir = Some [Parsed (Some ''/p/m.py'')
                         (Some [mkNode ''x'' ''PythonFunction'' ''first'' ''/p/m.py'' ''Python'',
                                mkNode ''x'' ''PythonFunction'' ''second'' ''/p/m.py'' ''Python''])
                         (Some []),
                       Unreadable]"

definition ex5_tsResults :: "(string, SingleFileParseResult) jsmap" where
  "ex5_tsResults = [(''/p/a.ts'',
       \<lparr>res_filePath = ''/p/a.ts'',
        nodes = [mkNode ''x'' ''Function'' ''third'' ''/p/a.ts'' ''TypeScript'',
                 mkNode ''y'' ''Function'' ''other'' ''/p/a.ts'' ''TypeScript''],
        relationships = [mkRel ''r'' ''CALLS'' ''x'' ''g'', mkRel ''r'' ''CALLS'' ''x'' ''h'']\<rparr>)]"

definition ex9_resolvers :: Resolvers where
  "ex9_resolvers =
     \<lparr>tsModules = (\<lambda>sf fn idx. [mkRel ''calls:f:g'' ''CALLS'' ''f'' ''g'', mkRel ''calls:f:g'' ''CALLS'' ''f'' ''h'']),
      tsInheritance = (\<lambda>sf fn idx. []), tsCrossFileInteractions = (\<lambda>sf fn idx. []),
      tsComponentUsage = (\<lambda>sf fn idx. []), cIncludes = (\<lambda>sf fn idx. [])\<rparr>"

text \<open>
  The example of the include resolver: \<open>main.cpp\<close> includes \<open>shapes/Circle.h\<close>, and the
  header is a file node of the index.
\<close>

definition ex4_main :: AstNode where
  "ex4_main = mkNode (generateEntityId ''file'' ''/proj/main.cpp'') ''File'' ''main.cpp'' ''/proj/main.cpp'' ''C++''"

definition ex4_header :: AstNode where
  "ex4_header = mkNode (generateEntityId ''file'' ''/proj/shapes/Circle.h'') ''File'' ''Circle.h''
                  ''/proj/shapes/Circle.h'' ''C++''"

definition ex4_directive :: AstNode where
  "ex4_directive =
     (mkNode (generateEntityId ''includedirective'' ''/proj/main.cpp:shapes/Circle.h:2'') ''IncludeDirective''
        ''shapes/Circle.h'' ''/proj/main.cpp'' ''C++'')
     \<lparr>properties := Some [(''includePath'', PStr ''shapes/Circle.h''), (''isSystemInclude'', PBool False)]\<rparr>"

definition ex4_index :: "(string, AstNode) jsmap" where
  "ex4_index = nodeIndexOf [ex4_main, ex4_directive, ex4_header]"

text \<open>
  The example of the component usage scenario: one \<open>.tsx\<close> file with the components
  \<open>Parent\<close> and \<open>Child\<close>, and resolvers whose component usage resolver submits the
  edge from \<open>Parent\<close> to \<open>Child\<close> whenever it is called.
\<close>

definition ex3_sourceFile :: SourceFile where
  "ex3_sourceFile = mkSourceFile ''/src/App.tsx'' JSX"

definition ex3_components :: "AstNode list" where
  "ex3_components =
     [mkNode (generateEntityId ''component'' ''/src/App.tsx:Parent'') ''Component'' ''Parent'' ''/src/App.tsx'' ''TSX'',
      mkNode (generateEntityId ''component'' ''/src/App.tsx:Child'') ''Component'' ''Child'' ''/src/App.tsx'' ''TSX'']"

definition ex3_usesComponent :: RelationshipInfo where
  "ex3_usesComponent =
     mkRel (generateEntityId ''uses_component'' ''component:/src/App.tsx:Parent:component:/src/App.tsx:Child'')
       ''USES_COMPONENT'' (generateEntityId ''component'' ''/src/App.tsx:Parent'')
       (generateEntityId ''component'' ''/src/App.tsx:Child'')"

definition ex3_resolvers :: Resolvers where
  "ex3_resolvers =
     \<lparr>tsModules = (\<lambda>sf fn idx. []), tsInheritance = (\<lambda>sf fn idx. []),
      tsCrossFileInteractions = (\<lambda>sf fn idx. []),
      tsComponentUsage = (\<lambda>sf fn idx. [ex3_usesComponent]), cIncludes = (\<lambda>sf fn idx. [])\<rparr>"

text \<open>
  The example of the variable ids: \<open>export const limit = 10;\<close> on line 3 of
  \<open>/src/a.ts\<close>, and the symbol that the language service resolves a use of \<open>limit\<close> to.
\<close>

definition ex1_declaration :: VariableDeclaration where
  "ex1_declaration = \<lparr>var_name = ''limit'', var_startLine = 3, var_endLine = 3, initializer = OtherInit\<rparr>"

definition ex1_statement :: VariableStatement where
  "ex1_statement = \<lparr>vs_isExported = True, declarationKind = Const, declarations = [ex1_declaration]\<rparr>"

definition ex1_sourceFile :: SourceFile where
  "ex1_sourceFile = (mkSourceFile ''/src/a.ts'' Standard)\<lparr>variableStatements := [ex1_statement]\<rparr>"

definition ex1_symbol :: ResolvedSymbol where
  "ex1_symbol = \<lparr>sym_name = ''limit'', sym_declarations = [VariableD ex1_declaration],
                  sym_declFilePath = ''/src/a.ts''\<rparr>"

text \<open>
  The two files of end-to-end scenario 1.  \<open>a.ts\<close> is
  \<open>import { funcB } from './b'; export function funcA() { funcB(); }\<close> and \<open>b.ts\<close> is
  \<open>export function funcB() { console.log('x'); }\<close>; ts-morph resolves \<open>'./b'\<close> to
  \<open>/src/b.ts\<close>.
\<close>

definition ex2_a :: SourceFile where
  "ex2_a =
     \<lparr>sf_filePath = ''/src/a.ts'', languageVariant = Standard, sf_endLine = 1,
      importDeclarations =
        [\<lparr>moduleSpecifierValue = ''./b'', imp_startLine = 1, imp_endLine = 1,
          namedImports = [\<lparr>ni_name = ''funcB'', ni_alias = None\<rparr>],
          defaultImport = None, namespaceImport = None, isTypeOnly = False,
          moduleSpecifierSourceFile = Some ''/src/b.ts''\<rparr>],
      functionLikes =
        [\<lparr>fl_kind = FunctionDeclarationK, fl_name = Some ''funcA'', fl_isExported = True,
          fl_startLine = 1, fl_endLine = 1, fl_variableDecl = None, fl_callExpr = None,
          fl_parameters = []\<rparr>],
      variableStatements = []\<rparr>"

definition ex2_b :: SourceFile where
  "ex2_b =
     \<lparr>sf_filePath = ''/src/b.ts'', languageVariant = Standard, sf_endLine = 1,
      importDeclarations = [],
      functionLikes =
        [\<lparr>fl_kind = FunctionDeclarationK, fl_name = Some ''funcB'', fl_isExported = True,
          fl_startLine = 1, fl_endLine = 1, fl_variableDecl = None, fl_callExpr = None,
          fl_parameters = []\<rparr>],
      variableStatements = []\<rparr>"

text \<open>The merged Pass 1 nodes of the scenario; there are no temporary JSON files.\<close>

definition scenario1_nodes :: "EntityIdGen \<Rightarrow> AstNode list" where
  "scenario1_nodes gen =
     fst (collectResults (Some []) (parseTsProjectFiles gen [ex2_a, ex2_b] [''/src/a.ts'', ''/src/b.ts'']))"

section \<open>Invariants used in the proofs\<close>

text \<open>The resolver state: the id set mirrors the result array, which holds no id twice.\<close>

definition ctx_inv :: "ResolverState \<Rightarrow> bool" where
  "ctx_inv st = (addedRelEntityIds st = set (map rel_entityId (st_relationships st))
                 \<and> distinct (map rel_entityId (st_relationships st)))"

text \<open>
  A map whose keys are distinct and whose every entry is filed under the key of its
  value.
\<close>

definition keyed :: "('a \<Rightarrow> 'k) \<Rightarrow> ('k, 'a) jsmap \<Rightarrow> bool" where
  "keyed key m = (distinct (map fst m) \<and> list_all (\<lambda>e. key (snd e) = fst e) m)"

text \<open>
  The state of \<open>collectResults\<close> after the records \<open>N\<close> and \<open>R\<close> have been processed:
  both maps are keyed by entity id and look up the last record of each id.
\<close>

definition collect_inv :: "AstNode list \<Rightarrow> RelationshipInfo list \<Rightarrow> CollectState \<Rightarrow> bool" where
  "collect_inv N R s =
     (keyed entityId (fst s) \<and> keyed rel_entityId (snd s)
      \<and> map_of (fst s) = map_of (rev (map (\<lambda>x. (entityId x, x)) N))
      \<and> map_of (snd s) = map_of (rev (map (\<lambda>x. (rel_entityId x, x)) R)))"

text \<open>The decision points among a list of nodes.\<close>

definition decisionCount :: "TsNode list \<Rightarrow> nat" where
  "decisionCount ns = length (filter isBranchingNode ns) + length (filter isLogicalBinary ns)"

text \<open>The node records of a log, in commit order.\<close>

fun batchNodes :: "Transaction \<Rightarrow> AstNode list" where
  "batchNodes (NodeBatch ns) = ns"
| "batchNodes (RelBatch ty rels) = []"

text \<open>A node whose \<open>properties\<close> object marks it neither exported nor default export.\<close>

definition noExportProperty :: "AstNode \<Rightarrow> bool" where
  "noExportProperty n = (\<not> truthy (getProp n ''isExported'') \<and> \<not> truthy (getProp n ''isDefaultExport''))"

section \<open>Properties\<close>

subsection \<open>The JavaScript map and the collection invariant\<close>

lemma map_of_map_set: "map_of (map_set k v m) = (map_of m)(k \<mapsto> v)"
  by (induction m) (auto simp: fun_eq_iff)

lemma keys_map_set: "set (map fst (map_set k v m)) = insert k (set (map fst m))"
  by (induction m) auto

lemma distinct_map_set: "distinct (map fst m) \<Longrightarrow> distinct (map fst (map_set k v m))"
proof (induction m)
  case Nil
  then show ?case by simp
next
  case (Cons e m)
  then show ?case
    using keys_map_set [of k v m] by (auto simp del: set_map)
qed

lemma list_all_map_set:
  "list_all P m \<Longrightarrow> P (k, v) \<Longrightarrow> list_all P (map_set k v m)"
  by (induction m) auto

lemma keyed_map_set: "keyed key m \<Longrightarrow> key v = k \<Longrightarrow> keyed key (map_set k v m)"
  unfolding keyed_def
  by (simp add: distinct_map_set list_all_map_set)

lemma fold_set_keyed:
  "keyed key m \<Longrightarrow> keyed key (fold (\<lambda>x m. map_set (key x) x m) xs m)"
  by (induction xs arbitrary: m) (simp_all add: keyed_map_set)

lemma fold_set_map_of:
  "map_of (fold (\<lambda>x m. map_set (key x) x m) xs m) = map_of m ++ map_of (rev (map (\<lambda>x. (key x, x)) xs))"
  by (induction xs arbitrary: m) (simp_all add: map_of_map_set)

lemma fold_entries_keyed:
  "keyed key m \<Longrightarrow> list_all (\<lambda>e. key (snd e) = fst e) es \<Longrightarrow>
   keyed key (fold (\<lambda>e m. map_set (fst e) (snd e) m) es m)"
  by (induction es arbitrary: m) (simp_all add: keyed_map_set)

lemma fold_entries_map_of:
  "map_of (fold (\<lambda>e m. map_set (fst e) (snd e) m) es m) = map_of m ++ map_of (rev es)"
  by (induction es arbitrary: m) (simp_all add: map_of_map_set)

lemma map_of_rev_distinct: "distinct (map fst es) \<Longrightarrow> map_of (rev es) = map_of es"
proof (induction es)
  case Nil
  then show ?case by simp
next
  case (Cons e es)
  then have ih: "map_of (rev es) = map_of es" and fresh: "fst e \<notin> fst ` set es"
    by simp_all
  have "dom [fst e \<mapsto> snd e] \<inter> dom (map_of es) = {}"
    using fresh by (simp add: dom_map_of_conv_image_fst)
  then have "[fst e \<mapsto> snd e] ++ map_of es = map_of es ++ [fst e \<mapsto> snd e]"
    by (rule map_add_comm)
  moreover have "map_of (e # es) = map_of es ++ [fst e \<mapsto> snd e]"
    by (cases e) (simp add: fun_eq_iff map_add_def)
  ultimately show ?case
    using ih by simp
qed

lemma map_of_rev_keyed:
  "map_of (rev (map (\<lambda>x. (key x, x)) xs)) k =
     (if k \<in> key ` set xs then Some (lastWith key k xs) else None)"
proof (induction xs rule: rev_induct)
  case Nil
  then show ?case by simp
next
  case (snoc x xs)
  then show ?case by (auto simp: lastWith_def)
qed

lemma find_values_keyed:
  "keyed key m \<Longrightarrow> map_of m k = Some v \<Longrightarrow> find (\<lambda>x. key x = k) (map_values m) = Some v"
  unfolding keyed_def map_values_def
  by (induction m) (auto split: if_splits)

lemma keys_values_keyed: "keyed key m \<Longrightarrow> map key (map_values m) = map fst m"
  unfolding keyed_def map_values_def by (induction m) auto

lemma keyed_Nil: "keyed key []"
  by (simp add: keyed_def)

lemma dedupFileNodes_keyed: "keyed entityId (dedupFileNodes ns)"
  unfolding dedupFileNodes_def by (rule fold_set_keyed) (rule keyed_Nil)

lemma dedupFileNodes_map_of:
  "map_of (dedupFileNodes ns) = map_of (rev (map (\<lambda>x. (entityId x, x)) ns))"
  unfolding dedupFileNodes_def by (simp add: fold_set_map_of)

lemma mergeNodes_keyed: "keyed entityId nodeMap \<Longrightarrow> keyed entityId (mergeNodes (dedupFileNodes ns) nodeMap)"
  unfolding mergeNodes_def
  using dedupFileNodes_keyed [of ns] by (intro fold_entries_keyed) (simp_all add: keyed_def)

lemma mergeNodes_map_of:
  "map_of (mergeNodes (dedupFileNodes ns) nodeMap)
     = map_of nodeMap ++ map_of (rev (map (\<lambda>x. (entityId x, x)) ns))"
proof -
  have "distinct (map fst (dedupFileNodes ns))"
    using dedupFileNodes_keyed [of ns] by (simp add: keyed_def)
  then have "map_of (rev (dedupFileNodes ns)) = map_of (dedupFileNodes ns)"
    by (rule map_of_rev_distinct)
  then show ?thesis
    unfolding mergeNodes_def by (simp add: fold_entries_map_of dedupFileNodes_map_of)
qed

lemma collect_inv_collectFile:
  assumes "collect_inv N R s"
  shows "collect_inv (N @ ns) (R @ rels) (collectFile ns rels s)"
proof -
  from assms have kn: "keyed entityId (fst s)" and kr: "keyed rel_entityId (snd s)"
    and mn: "map_of (fst s) = map_of (rev (map (\<lambda>x. (entityId x, x)) N))"
    and mr: "map_of (snd s) = map_of (rev (map (\<lambda>x. (rel_entityId x, x)) R))"
    by (simp_all add: collect_inv_def)
  have "keyed rel_entityId (mergeRelationships rels (snd s))"
    unfolding mergeRelationships_def using kr by (rule fold_set_keyed)
  moreover have "map_of (mergeRelationships rels (snd s))
      = map_of (rev (map (\<lambda>x. (rel_entityId x, x)) (R @ rels)))"
    unfolding mergeRelationships_def by (simp add: fold_set_map_of mr)
  moreover have "map_of (mergeNodes (dedupFileNodes ns) (fst s))
      = map_of (rev (map (\<lambda>x. (entityId x, x)) (N @ ns)))"
    by (simp add: mergeNodes_map_of mn)
  ultimately show ?thesis
    using mergeNodes_keyed [OF kn, of ns] by (simp add: collect_inv_def collectFile_def)
qed

lemma collect_inv_collectJson:
  "collect_inv N R s \<Longrightarrow> collect_inv (N @ jsonNodes t) (R @ jsonRelationships t) (collectJson t s)"
  by (induction t s rule: collectJson.induct) (simp_all add: collect_inv_collectFile)

lemma collect_inv_fold_json:
  "collect_inv N R s \<Longrightarrow>
   collect_inv (N @ concat (map jsonNodes ts)) (R @ concat (map jsonRelationships ts)) (fold collectJson ts s)"
proof (induction ts arbitrary: N R s)
  case Nil
  then show ?case by simp
next
  case (Cons t ts)
  from Cons.IH [OF collect_inv_collectJson [OF Cons.prems, of t]]
  show ?case by simp
qed

lemma collect_inv_fold_ts:
  "collect_inv N R s \<Longrightarrow>
   collect_inv (N @ concat (map (\<lambda>e. nodes (snd e)) es)) (R @ concat (map (\<lambda>e. relationships (snd e)) es))
     (fold (\<lambda>e s. collectFile (nodes (snd e)) (relationships (snd e)) s) es s)"
proof (induction es arbitrary: N R s)
  case Nil
  then show ?case by simp
next
  case (Cons e es)
  from Cons.IH [OF collect_inv_collectFile [OF Cons.prems, of "nodes (snd e)" "relationships (snd e)"]]
  show ?case by simp
qed

lemma collect_inv_final:
  "collect_inv (processedNodes tempDir tsResults) (processedRelationships tempDir tsResults)
     (collectMaps tempDir tsResults)"
proof -
  have e: "collect_inv [] [] ([], [])"
    by (simp add: collect_inv_def keyed_def)
  show ?thesis
  proof (cases tempDir)
    case None
    then show ?thesis
      using collect_inv_fold_ts [OF e, of tsResults]
      by (simp add: collectMaps_def processedNodes_def processedRelationships_def)
  next
    case (Some jsonFiles)
    then show ?thesis
      using collect_inv_fold_ts [OF collect_inv_fold_json [OF e, of jsonFiles], of tsResults]
      by (simp add: collectMaps_def processedNodes_def processedRelationships_def)
  qed
qed

lemma keyed_lookup:
  assumes "keyed key m" and "map_of m = map_of (rev (map (\<lambda>x. (key x, x)) xs))"
  shows "distinct (map key (map_values m))"
    and "set (map key (map_values m)) = key ` set xs"
    and "x \<in> set xs \<Longrightarrow> find (\<lambda>y. key y = key x) (map_values m) = Some (lastWith key (key x) xs)"
proof -
  show "distinct (map key (map_values m))"
    using assms(1) by (simp add: keys_values_keyed) (simp add: keyed_def)
  have "set (map fst m) = dom (map_of m)"
    by (simp add: dom_map_of_conv_image_fst)
  also have "\<dots> = key ` set xs"
    unfolding assms(2) by (auto simp: dom_def map_of_rev_keyed)
  finally show "set (map key (map_values m)) = key ` set xs"
    using assms(1) by (simp add: keys_values_keyed)
  assume "x \<in> set xs"
  then have "map_of m (key x) = Some (lastWith key (key x) xs)"
    unfolding assms(2) by (simp add: map_of_rev_keyed)
  with assms(1) show "find (\<lambda>y. key y = key x) (map_values m) = Some (lastWith key (key x) xs)"
    by (rule find_values_keyed)
qed

subsection \<open>Result collection\<close>

text \<open>
  C5: for every sequence of per-file parse results, the merged output of
  \<open>collectResults\<close> holds no two nodes and no two relationships with the same entity
  id; for every record that was processed, the output record with its entity id is the
  last processed record of that id (last write wins); and the output has exactly the
  entity ids that were processed.
\<close>

theorem C5_collectResults_dedup_last_wins:
  "distinct (map entityId (fst (collectResults tempDir tsResults)))
   \<and> distinct (map rel_entityId (snd (collectResults tempDir tsResults)))
   \<and> (\<forall>x \<in> set (processedNodes tempDir tsResults).
         find (\<lambda>n. entityId n = entityId x) (fst (collectResults tempDir tsResults))
           = Some (lastWith entityId (entityId x) (processedNodes tempDir tsResults)))
   \<and> (\<forall>x \<in> set (processedRelationships tempDir tsResults).
         find (\<lambda>r. rel_entityId r = rel_entityId x) (snd (collectResults tempDir tsResults))
           = Some (lastWith rel_entityId (rel_entityId x) (processedRelationships tempDir tsResults)))
   \<and> set (map entityId (fst (collectResults tempDir tsResults)))
         = entityId ` set (processedNodes tempDir tsResults)
   \<and> set (map rel_entityId (snd (collectResults tempDir tsResults)))
         = rel_entityId ` set (processedRelationships tempDir tsResults)"
proof -
  define s where "s = collectMaps tempDir tsResults"
  have out: "collectResults tempDir tsResults = (map_values (fst s), map_values (snd s))"
    by (simp add: collectResults_def s_def Let_def)
  have inv: "collect_inv (processedNodes tempDir tsResults) (processedRelationships tempDir tsResults) s"
    unfolding s_def by (rule collect_inv_final)
  from inv have kn: "keyed entityId (fst s)" and kr: "keyed rel_entityId (snd s)"
    and mn: "map_of (fst s) = map_of (rev (map (\<lambda>x. (entityId x, x)) (processedNodes tempDir tsResults)))"
    and mr: "map_of (snd s) = map_of (rev (map (\<lambda>x. (rel_entityId x, x)) (processedRelationships tempDir tsResults)))"
    by (simp_all add: collect_inv_def)
  show ?thesis
    unfolding out fst_conv snd_conv
    using keyed_lookup [OF kn mn] keyed_lookup [OF kr mr] by blast
qed

theorem C5_witness:
  "mkNode ''x'' ''PythonFunction'' ''first'' ''/p/m.py'' ''Python'' \<in> set (processedNodes ex5_tempDir ex5_tsResults)
   \<and> mkRel ''r'' ''CALLS'' ''x'' ''g'' \<in> set (processedRelationships ex5_tempDir ex5_tsResults)
   \<and> find (\<lambda>n. entityId n = ''x'') (fst (collectResults ex5_tempDir ex5_tsResults))
        = Some (mkNode ''x'' ''Function'' ''third'' ''/p/a.ts'' ''TypeScript'')
   \<and> find (\<lambda>r. rel_entityId r = ''r'') (snd (collectResults ex5_tempDir ex5_tsResults))
        = Some (mkRel ''r'' ''CALLS'' ''x'' ''h'')
   \<and> map entityId (fst (collectResults ex5_tempDir ex5_tsResults)) = [''x'', ''y'']
   \<and> distinct (map rel_entityId (snd (collectResults ex5_tempDir ex5_tsResults)))"
  using C5_collectResults_dedup_last_wins [of ex5_tempDir ex5_tsResults]
  by (simp add: ex5_tempDir_def ex5_tsResults_def collectResults_def collectMaps_def collectFile_def
        dedupFileNodes_def mergeNodes_def mergeRelationships_def map_values_def
        processedNodes_def processedRelationships_def lastWith_def mkNode_def mkRel_def)

subsection \<open>The resolver context\<close>

lemma ctx_inv_addRelationship: "ctx_inv st \<Longrightarrow> ctx_inv (addRelationship rel st)"
  by (auto simp: ctx_inv_def addRelationship_def)

lemma ctx_inv_fold: "ctx_inv st \<Longrightarrow> ctx_inv (fold addRelationship rels st)"
  by (induction rels arbitrary: st) (simp_all add: ctx_inv_addRelationship)

lemma ctx_inv_files:
  "ctx_inv st \<Longrightarrow> ctx_inv (fold (\<lambda>fileNode st. fold addRelationship (f fileNode) st) fileNodes st)"
  by (induction fileNodes arbitrary: st) (simp_all add: ctx_inv_fold)

lemma addRelationship_same_id:
  "rel_entityId r2 = rel_entityId r1 \<Longrightarrow> addRelationship r2 (addRelationship r1 st) = addRelationship r1 st"
  by (simp add: addRelationship_def)

lemma fold_addRelationship_firstById:
  "ctx_inv st \<Longrightarrow>
   st_relationships (fold addRelationship xs st)
     = st_relationships st @ firstById (filter (\<lambda>x. rel_entityId x \<notin> addedRelEntityIds st) xs)"
proof (induction xs arbitrary: st)
  case Nil
  then show ?case by simp
next
  case (Cons x xs)
  show ?case
  proof (cases "rel_entityId x \<in> addedRelEntityIds st")
    case True
    then have "addRelationship x st = st"
      by (simp add: addRelationship_def)
    with True Cons show ?thesis by simp
  next
    case False
    let ?st = "addRelationship x st"
    have st': "st_relationships ?st = st_relationships st @ [x]"
        "addedRelEntityIds ?st = insert (rel_entityId x) (addedRelEntityIds st)"
      using False by (simp_all add: addRelationship_def)
    have "filter (\<lambda>y. rel_entityId y \<notin> addedRelEntityIds ?st) xs
        = filter (\<lambda>y. rel_entityId y \<noteq> rel_entityId x)
            (filter (\<lambda>y. rel_entityId y \<notin> addedRelEntityIds st) xs)"
      unfolding st' by (auto simp: filter_filter intro: filter_cong)
    then have "st_relationships (fold addRelationship xs ?st)
        = st_relationships st @ [x] @ firstById (filter (\<lambda>y. rel_entityId y \<noteq> rel_entityId x)
            (filter (\<lambda>y. rel_entityId y \<notin> addedRelEntityIds st) xs))"
      using Cons.IH [OF ctx_inv_addRelationship [OF Cons.prems], of x] st' by simp
    with False show ?thesis by simp
  qed
qed

lemma fold_files_concat:
  "fold (\<lambda>fileNode st. fold addRelationship (f fileNode) st) fileNodes st
     = fold addRelationship (concat (map f fileNodes)) st"
  by (induction fileNodes arbitrary: st) simp_all

lemma resolveRelationships_firstById:
  "resolveRelationships rs project allNodes = firstById (submissions rs project allNodes)"
proof -
  have "ctx_inv \<lparr>st_relationships = [], addedRelEntityIds = {}\<rparr>"
    by (simp add: ctx_inv_def)
  from fold_addRelationship_firstById [OF this, of "submissions rs project allNodes"]
  show ?thesis
    by (simp add: resolveRelationships_def submissions_def Let_def fold_files_concat)
qed

text \<open>
  C9: within one resolution run \<open>addRelationship\<close> is idempotent per relationship
  entity id: a second relationship with the id of one just submitted leaves the state
  as it is; the list \<open>resolveRelationships\<close> returns holds no entity id twice; and it
  consists of the first submission of each entity id, in submission order.
\<close>

theorem C9_addRelationship_idempotent:
  "(rel_entityId r2 = rel_entityId r1 \<longrightarrow>
      addRelationship r2 (addRelationship r1 st) = addRelationship r1 st)
   \<and> distinct (map rel_entityId (resolveRelationships rs project allNodes))
   \<and> resolveRelationships rs project allNodes = firstById (submissions rs project allNodes)"
proof -
  have "ctx_inv \<lparr>st_relationships = [], addedRelEntityIds = {}\<rparr>"
    by (simp add: ctx_inv_def)
  then have "distinct (map rel_entityId (resolveRelationships rs project allNodes))"
    unfolding resolveRelationships_def Let_def
    using ctx_inv_files ctx_inv_def by blast
  then show ?thesis
    using addRelationship_same_id resolveRelationships_firstById by blast
qed

theorem C9_witness:
  "rel_entityId (mkRel ''calls:f:g'' ''CALLS'' ''f'' ''h'') = rel_entityId (mkRel ''calls:f:g'' ''CALLS'' ''f'' ''g'')
   \<and> addRelationship (mkRel ''calls:f:g'' ''CALLS'' ''f'' ''h'')
         (addRelationship (mkRel ''calls:f:g'' ''CALLS'' ''f'' ''g'') \<lparr>st_relationships = [], addedRelEntityIds = {}\<rparr>)
       = addRelationship (mkRel ''calls:f:g'' ''CALLS'' ''f'' ''g'') \<lparr>st_relationships = [], addedRelEntityIds = {}\<rparr>
   \<and> distinct (map rel_entityId
         (resolveRelationships ex9_resolvers [mkSourceFile ''/a.ts'' Standard]
            [mkNode ''file:/a.ts'' ''File'' ''a.ts'' ''/a.ts'' ''TypeScript'']))
   \<and> submissions ex9_resolvers [mkSourceFile ''/a.ts'' Standard]
         [mkNode ''file:/a.ts'' ''File'' ''a.ts'' ''/a.ts'' ''TypeScript'']
       = [mkRel ''calls:f:g'' ''CALLS'' ''f'' ''g'', mkRel ''calls:f:g'' ''CALLS'' ''f'' ''h'']
   \<and> resolveRelationships ex9_resolvers [mkSourceFile ''/a.ts'' Standard]
         [mkNode ''file:/a.ts'' ''File'' ''a.ts'' ''/a.ts'' ''TypeScript'']
       = [mkRel ''calls:f:g'' ''CALLS'' ''f'' ''g'']"
  using C9_addRelationship_idempotent
    [of "mkRel ''calls:f:g'' ''CALLS'' ''f'' ''h''" "mkRel ''calls:f:g'' ''CALLS'' ''f'' ''g''"
        "\<lparr>st_relationships = [], addedRelEntityIds = {}\<rparr>" ex9_resolvers
        "[mkSourceFile ''/a.ts'' Standard]"
        "[mkNode ''file:/a.ts'' ''File'' ''a.ts'' ''/a.ts'' ''TypeScript'']"]
  by (simp add: resolveRelationships_def submissions_def nodeIndexOf_def resolveFile_def getSourceFile_def
        map_from_entries_def map_values_def addRelationship_def mkRel_def mkNode_def mkSourceFile_def
        ex9_resolvers_def)

subsection \<open>Pass 1 dispatch\<close>

lemma dispatchFile_cc_hh:
  "extension f = ''.cc'' \<or> extension f = ''.hh'' \<Longrightarrow> dispatchFile supportedExtensions f st = st"
  by (auto simp: dispatchFile_def supportedExtensions_def Let_def)

lemma fold_dispatch_filter:
  "fold (dispatchFile supportedExtensions) files st
     = fold (dispatchFile supportedExtensions)
         (filter (\<lambda>f. extension f \<noteq> ''.cc'' \<and> extension f \<noteq> ''.hh'') files) st"
proof (induction files arbitrary: st)
  case Nil
  then show ?case by simp
next
  case (Cons f files)
  show ?case
  proof (cases "extension f = ''.cc'' \<or> extension f = ''.hh''")
    case True
    then have "dispatchFile supportedExtensions f st = st"
      by (rule dispatchFile_cc_hh)
    with True Cons.IH show ?thesis by auto
  next
    case False
    with Cons.IH show ?thesis by simp
  qed
qed

text \<open>
  C10: a scanned file whose extension is \<open>.cc\<close> or \<open>.hh\<close> is dropped silently by
  the Pass 1 dispatcher although both extensions are in the default
  \<open>supportedExtensions\<close>: the dispatch leaves the state as it is (no parser call, no
  addition to the TypeScript project, no log entry and so no unsupported-extension
  warning), and the whole loop ends in the state it reaches without these files.  File
  nodes are emitted by the language parsers and by the TypeScript project parse only,
  so such a file gets none.
\<close>

theorem C10_cc_hh_silently_dropped:
  "((extension f = ''.cc'' \<or> extension f = ''.hh'') \<longrightarrow>
      extension f \<in> set supportedExtensions
      \<and> dispatchFile supportedExtensions f st = st)
   \<and> parseFiles supportedExtensions files
       = parseFiles supportedExtensions
           (filter (\<lambda>f. extension f \<noteq> ''.cc'' \<and> extension f \<noteq> ''.hh'') files)"
proof -
  have "extension f = ''.cc'' \<or> extension f = ''.hh'' \<Longrightarrow> extension f \<in> set supportedExtensions"
    by (auto simp: supportedExtensions_def)
  then show ?thesis
    unfolding parseFiles_def
    using dispatchFile_cc_hh [of f st] fold_dispatch_filter by blast
qed

theorem C10_witness:
  "extension \<lparr>fi_path = ''/p/shape.cc'', fi_name = ''shape.cc'', extension = ''.cc''\<rparr> = ''.cc''
   \<and> ''.cc'' \<in> set supportedExtensions
   \<and> parseFiles supportedExtensions
        [\<lparr>fi_path = ''/p/main.cpp'', fi_name = ''main.cpp'', extension = ''.cpp''\<rparr>,
         \<lparr>fi_path = ''/p/shape.cc'', fi_name = ''shape.cc'', extension = ''.cc''\<rparr>,
         \<lparr>fi_path = ''/p/shape.hh'', fi_name = ''shape.hh'', extension = ''.hh''\<rparr>,
         \<lparr>fi_path = ''/p/notes.txt'', fi_name = ''notes.txt'', extension = ''.txt''\<rparr>]
       = \<lparr>parserCalls = [(CCppParser, \<lparr>fi_path = ''/p/main.cpp'', fi_name = ''main.cpp'', extension = ''.cpp''\<rparr>)],
          tsFilesToAdd = [],
          dispatchLog = [WarnUnsupportedFileType ''.txt'' ''/p/notes.txt'']\<rparr>"
  using C10_cc_hh_silently_dropped
    [of "\<lparr>fi_path = ''/p/shape.cc'', fi_name = ''shape.cc'', extension = ''.cc''\<rparr>"
        "\<lparr>parserCalls = [], tsFilesToAdd = [], dispatchLog = []\<rparr>"
        "[\<lparr>fi_path = ''/p/main.cpp'', fi_name = ''main.cpp'', extension = ''.cpp''\<rparr>,
         \<lparr>fi_path = ''/p/shape.cc'', fi_name = ''shape.cc'', extension = ''.cc''\<rparr>,
         \<lparr>fi_path = ''/p/shape.hh'', fi_name = ''shape.hh'', extension = ''.hh''\<rparr>,
         \<lparr>fi_path = ''/p/notes.txt'', fi_name = ''notes.txt'', extension = ''.txt''\<rparr>]"]
  by (simp add: parseFiles_def dispatchFile_def supportedExtensions_def Let_def)

subsection \<open>Cyclomatic complexity\<close>

lemma complexityCallback_count:
  "complexityCallback d c = c + decisionCount [d]"
proof (cases d)
  case (TsNode k cs)
  then show ?thesis
    by (cases k; simp add: complexityCallback_def decisionCount_def isBranchingNode_def isLogicalBinary_def)
qed

lemma decisionCount_append: "decisionCount (xs @ ys) = decisionCount xs + decisionCount ys"
  by (simp add: decisionCount_def)

lemma decisionCount_Cons: "decisionCount (x # xs) = decisionCount [x] + decisionCount xs"
  by (simp add: decisionCount_def)

lemma forEach_count:
  "forEachDescendant complexityCallback n c = c + decisionCount (descendants n)"
  "forEachOf complexityCallback cs c = c + decisionCount (concat (map (\<lambda>x. x # descendants x) cs))"
proof (induction complexityCallback n c and complexityCallback cs c rule: forEachDescendant_forEachOf.induct)
  case (1 k cs s)
  then show ?case by simp
next
  case (2 s)
  then show ?case by (simp add: decisionCount_def)
next
  case (3 c cs s)
  then show ?case
    by (simp add: complexityCallback_count) (simp add: decisionCount_def)
qed

text \<open>
  C7: for every function or method body the computed cyclomatic complexity is 1 plus
  the number of descendant \<open>if\<close>, \<open>for\<close>, \<open>for-in\<close>, \<open>for-of\<close>, \<open>while\<close>, \<open>do\<close>,
  case-clause, catch-clause and conditional-expression nodes plus the number of
  descendant binary expressions whose operator is \<open>&&\<close>, \<open>||\<close> or \<open>??\<close>; for an absent
  body it is 1.
\<close>

theorem C7_cyclomatic_complexity:
  "calculateCyclomaticComplexity (Some body)
     = 1 + length (filter isBranchingNode (descendants body))
         + length (filter isLogicalBinary (descendants body))
   \<and> calculateCyclomaticComplexity None = 1"
  by (simp add: calculateCyclomaticComplexity_def forEach_count(1) decisionCount_def)

theorem C7_witness:
  "calculateCyclomaticComplexity
     (Some (TsNode OtherKind
        [TsNode IfStatement
           [TsNode (BinaryExpression AmpersandAmpersandToken) [TsNode OtherKind [], TsNode OtherKind []],
            TsNode OtherKind [TsNode ConditionalExpression []]],
         TsNode ForOfStatement [TsNode (BinaryExpression OtherToken) []],
         TsNode OtherKind [TsNode (BinaryExpression QuestionQuestionToken) []]])) = 6"
  using C7_cyclomatic_complexity
    [of "TsNode OtherKind
        [TsNode IfStatement
           [TsNode (BinaryExpression AmpersandAmpersandToken) [TsNode OtherKind [], TsNode OtherKind []],
            TsNode OtherKind [TsNode ConditionalExpression []]],
         TsNode ForOfStatement [TsNode (BinaryExpression OtherToken) []],
         TsNode OtherKind [TsNode (BinaryExpression QuestionQuestionToken) []]]"]
  by (simp add: isBranchingNode_def isLogicalBinary_def)

subsection \<open>The batch size\<close>

lemma digit_not_space: "isDecimalDigit c \<Longrightarrow> \<not> isStrWhiteSpaceChar c"
  by (auto simp: isDecimalDigit_def isStrWhiteSpaceChar_def)

lemma digit_not_sign: "isDecimalDigit c \<Longrightarrow> c \<noteq> CHR ''+'' \<and> c \<noteq> CHR ''-''"
  by (auto simp: isDecimalDigit_def)

lemma sign_not_space: "\<not> isStrWhiteSpaceChar CHR ''+''" "\<not> isStrWhiteSpaceChar CHR ''-''"
  by (simp_all add: isStrWhiteSpaceChar_def)

lemma dropWhile_prefix:
  "list_all P ws \<Longrightarrow> t = [] \<or> \<not> P (hd t) \<Longrightarrow> dropWhile P (ws @ t) = t"
  by (induction ws) (cases t; auto)+

lemma takeWhile_prefix:
  "list_all P ds \<Longrightarrow> t = [] \<or> \<not> P (hd t) \<Longrightarrow> takeWhile P (ds @ t) = ds"
  by (induction ds) (cases t; auto)+

lemma mathInt_nonneg_aux:
  "list_all isDecimalDigit Z \<Longrightarrow> 0 \<le> a \<Longrightarrow> 0 \<le> foldl (\<lambda>acc c. 10 * acc + digitValue c) a Z"
  by (induction Z arbitrary: a) (auto simp: isDecimalDigit_def digitValue_def)

lemma mathInt_nonneg: "list_all isDecimalDigit Z \<Longrightarrow> 0 \<le> mathInt Z"
  unfolding mathInt_def by (rule mathInt_nonneg_aux) simp_all

lemma parseInt10_decomposed:
  assumes ws: "list_all isStrWhiteSpaceChar ws"
    and sg: "sg = [] \<or> sg = ''+'' \<or> sg = ''-''"
    and ds: "ds \<noteq> []" "list_all isDecimalDigit ds"
    and rest: "rest = [] \<or> \<not> isDecimalDigit (hd rest)"
  shows "parseInt10 (ws @ sg @ ds @ rest) = toNumber ((if sg = ''-'' then - 1 else 1) * mathInt ds)"
proof -
  from ds obtain d ds' where d: "ds = d # ds'" "isDecimalDigit d"
    by (cases ds) auto
  have tk: "takeWhile isDecimalDigit (ds @ rest) = ds"
    using ds(2) rest by (rule takeWhile_prefix)
  have "sg @ ds @ rest = [] \<or> \<not> isStrWhiteSpaceChar (hd (sg @ ds @ rest))"
    using sg d digit_not_space sign_not_space by auto
  with ws have S: "dropWhile isStrWhiteSpaceChar (ws @ sg @ ds @ rest) = sg @ ds @ rest"
    by (rule dropWhile_prefix)
  from sg show ?thesis
  proof (elim disjE)
    assume "sg = []"
    then show ?thesis
      unfolding parseInt10_def S Let_def
      using d digit_not_sign [of d] tk ds(1) by simp
  next
    assume "sg = ''+''"
    then show ?thesis
      unfolding parseInt10_def S Let_def
      using tk ds(1) by simp
  next
    assume "sg = ''-''"
    then show ?thesis
      unfolding parseInt10_def S Let_def
      using tk ds(1) by simp
  qed
qed

lemma parseInt10_not_NaN:
  assumes "parseInt10 s \<noteq> NaN"
  shows "\<exists>ws sg ds rest. s = ws @ sg @ ds @ rest \<and> list_all isStrWhiteSpaceChar ws
           \<and> (sg = [] \<or> sg = ''+'' \<or> sg = ''-'') \<and> ds \<noteq> [] \<and> list_all isDecimalDigit ds"
proof -
  define S where "S = dropWhile isStrWhiteSpaceChar s"
  define sg where "sg = (if S \<noteq> [] \<and> (hd S = CHR ''+'' \<or> hd S = CHR ''-'') then [hd S] else [])"
  define S' where "S' = (if S \<noteq> [] \<and> (hd S = CHR ''+'' \<or> hd S = CHR ''-'') then tl S else S)"
  define Z where "Z = takeWhile isDecimalDigit S'"
  have "Z \<noteq> []"
    using assms unfolding parseInt10_def Let_def Z_def S'_def S_def by (auto split: if_splits)
  moreover have "s = takeWhile isStrWhiteSpaceChar s @ S"
    by (simp add: S_def)
  moreover have "S = sg @ S'"
    by (simp add: sg_def S'_def)
  moreover have "S' = Z @ dropWhile isDecimalDigit S'"
    by (simp add: Z_def)
  moreover have "list_all isStrWhiteSpaceChar (takeWhile isStrWhiteSpaceChar s)"
    by (simp add: list_all_iff) (meson set_takeWhileD)
  moreover have "list_all isDecimalDigit Z"
    unfolding Z_def by (simp add: list_all_iff) (meson set_takeWhileD)
  moreover have "sg = [] \<or> sg = ''+'' \<or> sg = ''-''"
    by (auto simp: sg_def)
  ultimately show ?thesis
    by metis
qed

lemma storageBatchSize_toNumber:
  "(let parsed = toNumber w in if isNaN parsed \<or> leqZero parsed then Finite 100 else parsed)
     = (if w \<le> 0 then Finite 100 else toNumber w)"
  by (auto simp: toNumber_def Let_def)

text \<open>
  C8, amended: the effective batch size is 100 when \<open>STORAGE_BATCH_SIZE\<close> is unset or
  empty, when its value has no decimal digit right after the optional leading white
  space and the optional sign, and when the leading run of digits follows a minus sign
  or has the value 0.  Otherwise it is the value of the leading run of decimal digits,
  whatever follows the run; so a digit string that denotes a positive integer is used as
  that integer (exactly up to \<open>2 ^ 53\<close>, the range in which a double is exact).
\<close>

theorem C8_storageBatchSize_parseInt:
  "storageBatchSize None = Finite 100
   \<and> storageBatchSize (Some []) = Finite 100
   \<and> (list_all isStrWhiteSpaceChar ws \<and> (sg = [] \<or> sg = ''+'' \<or> sg = ''-'')
        \<and> ds \<noteq> [] \<and> list_all isDecimalDigit ds \<and> (rest = [] \<or> \<not> isDecimalDigit (hd rest))
      \<longrightarrow> storageBatchSize (Some (ws @ sg @ ds @ rest))
            = (if sg = ''-'' \<or> mathInt ds = 0 then Finite 100 else toNumber (mathInt ds)))
   \<and> ((\<forall>ws sg ds rest. s = ws @ sg @ ds @ rest \<and> list_all isStrWhiteSpaceChar ws
            \<and> (sg = [] \<or> sg = ''+'' \<or> sg = ''-'') \<and> list_all isDecimalDigit ds \<longrightarrow> ds = [])
      \<longrightarrow> storageBatchSize (Some s) = Finite 100)
   \<and> (denotesPositiveInteger s \<and> mathInt s \<le> 2 ^ 53 \<longrightarrow> storageBatchSize (Some s) = Finite (mathInt s))"
proof -
  have unset: "storageBatchSize None = Finite 100" "storageBatchSize (Some []) = Finite 100"
    using parseInt10_decomposed [of "[]" "[]" "''100''" "[]"]
    by (simp_all add: storageBatchSize_def isDecimalDigit_def mathInt_def digitValue_def toNumber_def)
  have dec: "storageBatchSize (Some (ws @ sg @ ds @ rest))
        = (if sg = ''-'' \<or> mathInt ds = 0 then Finite 100 else toNumber (mathInt ds))"
    if h: "list_all isStrWhiteSpaceChar ws" "sg = [] \<or> sg = ''+'' \<or> sg = ''-''"
      "ds \<noteq> []" "list_all isDecimalDigit ds" "rest = [] \<or> \<not> isDecimalDigit (hd rest)"
    for ws sg ds rest
  proof -
    have nn: "0 \<le> mathInt ds"
      using h(4) by (rule mathInt_nonneg)
    have "storageBatchSize (Some (ws @ sg @ ds @ rest))
        = (let parsed = toNumber ((if sg = ''-'' then - 1 else 1) * mathInt ds)
           in if isNaN parsed \<or> leqZero parsed then Finite 100 else parsed)"
      using h(3) by (simp add: storageBatchSize_def parseInt10_decomposed [OF h])
    also have "\<dots> = (if (if sg = ''-'' then - 1 else 1) * mathInt ds \<le> 0 then Finite 100
                      else toNumber ((if sg = ''-'' then - 1 else 1) * mathInt ds))"
      by (rule storageBatchSize_toNumber)
    also have "\<dots> = (if sg = ''-'' \<or> mathInt ds = 0 then Finite 100 else toNumber (mathInt ds))"
      using nn by auto
    finally show ?thesis .
  qed
  have nodigits: "storageBatchSize (Some s) = Finite 100"
    if h: "\<forall>ws sg ds rest. s = ws @ sg @ ds @ rest \<and> list_all isStrWhiteSpaceChar ws
            \<and> (sg = [] \<or> sg = ''+'' \<or> sg = ''-'') \<and> list_all isDecimalDigit ds \<longrightarrow> ds = []"
  proof (cases "s = []")
    case True
    then show ?thesis using unset(2) by simp
  next
    case False
    have "parseInt10 s = NaN"
      using parseInt10_not_NaN [of s] h by blast
    with False show ?thesis
      by (simp add: storageBatchSize_def)
  qed
  have pos: "storageBatchSize (Some s) = Finite (mathInt s)"
    if h: "denotesPositiveInteger s" "mathInt s \<le> 2 ^ 53"
  proof -
    from h(1) have "s \<noteq> []" "list_all isDecimalDigit s" "0 < mathInt s"
      by (simp_all add: denotesPositiveInteger_def)
    then show ?thesis
      using dec [of "[]" "[]" s "[]"] h(2) by (simp add: toNumber_def)
  qed
  show ?thesis
    using unset dec nodigits pos by blast
qed

theorem C8_witness:
  "storageBatchSize (Some (''  '' @ ''+'' @ ''42'' @ ''px'')) = Finite 42
   \<and> storageBatchSize (Some (''-'' @ ''5'')) = Finite 100
   \<and> storageBatchSize (Some ''abc'') = Finite 100
   \<and> denotesPositiveInteger ''250''
   \<and> storageBatchSize (Some ''250'') = Finite 250"
  using C8_storageBatchSize_parseInt [of "''  ''" "''+''" "''42''" "''px''" "''250''"]
    C8_storageBatchSize_parseInt [of "[]" "''-''" "''5''" "[]" "''abc''"]
  by (simp add: storageBatchSize_def parseInt10_def denotesPositiveInteger_def isStrWhiteSpaceChar_def
        isDecimalDigit_def mathInt_def digitValue_def toNumber_def Let_def)

theorem C8_counterexample:
  "\<not> denotesPositiveInteger ''12abc'' \<and> storageBatchSize (Some ''12abc'') = Finite 12"
  by (simp add: storageBatchSize_def parseInt10_def denotesPositiveInteger_def isStrWhiteSpaceChar_def
        isDecimalDigit_def mathInt_def digitValue_def toNumber_def Let_def)

subsection \<open>The write phase\<close>

lemma slice_bounds:
  "0 < B \<Longrightarrow> i < length xs \<Longrightarrow> slice xs i (i + B) \<noteq> [] \<and> length (slice xs i (i + B)) \<le> B"
  by (simp add: slice_def)

lemma slice_drop: "slice xs i (i + B) @ drop (i + B) xs = drop i xs"
proof -
  have "take B (drop i xs) @ drop B (drop i xs) = drop i xs"
    by (rule append_take_drop_id)
  then show ?thesis
    by (simp add: slice_def add.commute)
qed

lemma saveNodesLoop_returns:
  assumes "0 < B"
  shows "\<exists>bs ok. saveNodesLoop rt B ns i log = Some (log @ map NodeBatch bs, ok)
           \<and> list_all (\<lambda>b. length b \<le> B) bs \<and> (ok \<longrightarrow> concat bs = drop i ns)"
proof (induction "length ns - i" arbitrary: i log rule: less_induct)
  case less
  show ?case
  proof (cases "i < length ns")
    case False
    then show ?thesis
      by (subst saveNodesLoop.simps) (auto intro: exI [of _ "[]"])
  next
    case True
    let ?batch = "slice ns i (i + B)"
    have b: "?batch \<noteq> []" "length ?batch \<le> B"
      using slice_bounds [OF assms True] by simp_all
    show ?thesis
    proof (cases "rt (NodeBatch ?batch)")
      case False
      then have "saveNodesLoop rt B ns i log = Some (log @ map NodeBatch [], False)"
        using True b by (subst saveNodesLoop.simps) simp
      then show ?thesis
        by (intro exI [of _ "[]"] exI [of _ False]) simp
    next
      case rt: True
      have "length ns - (i + B) < length ns - i"
        using True assms by simp
      from less [OF this, of "log @ [NodeBatch ?batch]"]
      obtain bs ok where r: "saveNodesLoop rt B ns (i + B) (log @ [NodeBatch ?batch])
            = Some ((log @ [NodeBatch ?batch]) @ map NodeBatch bs, ok)"
        and bs: "list_all (\<lambda>b. length b \<le> B) bs" and all: "ok \<longrightarrow> concat bs = drop (i + B) ns"
        by blast
      have "saveNodesLoop rt B ns i log = Some (log @ map NodeBatch (?batch # bs), ok)"
        using True b rt r by (subst saveNodesLoop.simps) simp
      moreover have "list_all (\<lambda>b. length b \<le> B) (?batch # bs)"
        using b bs by simp
      moreover have "ok \<longrightarrow> concat (?batch # bs) = drop i ns"
        using all slice_drop [of ns i B] by simp
      ultimately show ?thesis
        by blast
    qed
  qed
qed

lemma saveRelationshipsLoop_returns:
  assumes "0 < B"
  shows "\<exists>bs ok. saveRelationshipsLoop rt B ty rels i log = Some (log @ map (RelBatch ty) bs, ok)
           \<and> list_all (\<lambda>b. length b \<le> B) bs"
proof (induction "length rels - i" arbitrary: i log rule: less_induct)
  case less
  show ?case
  proof (cases "i < length rels")
    case False
    then show ?thesis
      by (subst saveRelationshipsLoop.simps) (auto intro: exI [of _ "[]"])
  next
    case True
    let ?batch = "slice rels i (i + B)"
    have b: "?batch \<noteq> []" "length ?batch \<le> B"
      using slice_bounds [OF assms True] by simp_all
    show ?thesis
    proof (cases "rt (RelBatch ty ?batch)")
      case False
      then have "saveRelationshipsLoop rt B ty rels i log = Some (log @ map (RelBatch ty) [], False)"
        using True b by (subst saveRelationshipsLoop.simps) simp
      then show ?thesis
        by (intro exI [of _ "[]"] exI [of _ False]) simp
    next
      case rt: True
      have "length rels - (i + B) < length rels - i"
        using True assms by simp
      from less [OF this, of "log @ [RelBatch ty ?batch]"]
      obtain bs ok where r: "saveRelationshipsLoop rt B ty rels (i + B) (log @ [RelBatch ty ?batch])
            = Some ((log @ [RelBatch ty ?batch]) @ map (RelBatch ty) bs, ok)"
        and bs: "list_all (\<lambda>b. length b \<le> B) bs"
        by blast
      have "saveRelationshipsLoop rt B ty rels i log = Some (log @ map (RelBatch ty) (?batch # bs), ok)"
        using True b rt r by (subst saveRelationshipsLoop.simps) simp
      moreover have "list_all (\<lambda>b. length b \<le> B) (?batch # bs)"
        using b bs by simp
      ultimately show ?thesis
        by blast
    qed
  qed
qed

lemma saveRelationshipsBatch_returns:
  assumes "0 < B"
  shows "\<exists>rl ok. saveRelationshipsBatch rt B ty rels log = Some (log @ rl, ok)
           \<and> list_all (\<lambda>t. \<not> isNodeBatch t \<and> batchLength t \<le> B) rl"
proof (cases "rels = []")
  case True
  then show ?thesis
    by (auto simp: saveRelationshipsBatch_def intro: exI [of _ "[]"])
next
  case False
  obtain bs ok where "saveRelationshipsLoop rt B ty rels 0 log = Some (log @ map (RelBatch ty) bs, ok)"
    and "list_all (\<lambda>b. length b \<le> B) bs"
    using saveRelationshipsLoop_returns [OF assms] by blast
  moreover from this have "list_all (\<lambda>t. \<not> isNodeBatch t \<and> batchLength t \<le> B) (map (RelBatch ty) bs)"
    by (simp add: list_all_iff)
  ultimately show ?thesis
    using False by (auto simp: saveRelationshipsBatch_def)
qed

lemma saveGroups_returns:
  assumes "0 < B"
  shows "\<exists>rl ok. saveGroups rt B gs log = Some (log @ rl, ok)
           \<and> list_all (\<lambda>t. \<not> isNodeBatch t \<and> batchLength t \<le> B) rl"
proof (induction gs arbitrary: log)
  case Nil
  then show ?case by (auto intro: exI [of _ "[]"])
next
  case (Cons g gs)
  obtain rl ok where r: "saveRelationshipsBatch rt B (fst g) (snd g) log = Some (log @ rl, ok)"
    and rl: "list_all (\<lambda>t. \<not> isNodeBatch t \<and> batchLength t \<le> B) rl"
    using saveRelationshipsBatch_returns [OF assms] by blast
  show ?case
  proof (cases ok)
    case False
    with r rl show ?thesis by auto
  next
    case True
    obtain rl' ok' where r': "saveGroups rt B gs (log @ rl) = Some ((log @ rl) @ rl', ok')"
      and rl': "list_all (\<lambda>t. \<not> isNodeBatch t \<and> batchLength t \<le> B) rl'"
      using Cons.IH by blast
    have "saveGroups rt B (g # gs) log = Some (log @ (rl @ rl'), ok')"
      using r True r' by simp
    moreover have "list_all (\<lambda>t. \<not> isNodeBatch t \<and> batchLength t \<le> B) (rl @ rl')"
      using rl rl' by simp
    ultimately show ?thesis by blast
  qed
qed

lemma saveNodesBatch_returns:
  assumes "0 < B"
  shows "\<exists>bs ok. saveNodesBatch rt B ns [] = Some (map NodeBatch bs, ok)
           \<and> list_all (\<lambda>b. length b \<le> B) bs \<and> (ok \<longrightarrow> concat bs = ns)"
proof (cases "ns = []")
  case True
  then show ?thesis
    by (auto simp: saveNodesBatch_def intro: exI [of _ "[]"])
next
  case False
  then show ?thesis
    using saveNodesLoop_returns [OF assms, of rt ns 0 "[]"] by (simp add: saveNodesBatch_def)
qed

lemma nodesBeforeRelationships_append:
  "list_all (\<lambda>t. \<not> isNodeBatch t) rl \<Longrightarrow> nodesBeforeRelationships (map NodeBatch bs @ rl)"
proof -
  assume rl: "list_all (\<lambda>t. \<not> isNodeBatch t) rl"
  have "dropWhile isNodeBatch (map NodeBatch bs @ rl) = dropWhile isNodeBatch rl"
    by (induction bs) simp_all
  also have "\<dots> = rl"
    using rl by (cases rl) simp_all
  finally show ?thesis
    using rl by (simp add: nodesBeforeRelationships_def)
qed

lemma batchNodes_log:
  "list_all (\<lambda>t. \<not> isNodeBatch t) rl \<Longrightarrow> concat (map batchNodes (map NodeBatch bs @ rl)) = concat bs"
proof -
  assume "list_all (\<lambda>t. \<not> isNodeBatch t) rl"
  then have "concat (map batchNodes rl) = []"
    by (induction rl) (auto elim: isNodeBatch.elims)
  moreover have "map batchNodes (map NodeBatch bs) = bs"
    by (induction bs) simp_all
  ultimately show ?thesis by simp
qed

text \<open>
  The configured batch size is never \<open>NaN\<close> and never zero or negative: it is a positive
  integer, or the double of a digit run beyond \<open>2 ^ 53\<close>.
\<close>

lemma storageBatchSize_positive:
  "(\<exists>n. storageBatchSize env = Finite n \<and> 0 < n) \<or> storageBatchSize env = Rounded False"
proof -
  define parsed where
    "parsed = parseInt10 (case env of None \<Rightarrow> ''100'' | Some s \<Rightarrow> if s = [] then ''100'' else s)"
  have "storageBatchSize env = (if isNaN parsed \<or> leqZero parsed then Finite 100 else parsed)"
    by (simp add: storageBatchSize_def parsed_def)
  then show ?thesis
    by (cases parsed) auto
qed

text \<open>
  C6: with a positive batch size the write phase of \<open>analyze\<close> returns; every node batch
  and every relationship batch it committed holds at most \<open>storageBatchSize\<close> records;
  all node batches are committed before any relationship batch; and unless a
  transaction failed the node batches are, in order, the node list.
\<close>

theorem C6_write_phase_batches:
  assumes "0 < batchSize"
  shows "\<exists>log ok. storeResults runTransaction batchSize finalNodes pass1Relationships pass2Relationships
             = Some (log, ok)
           \<and> list_all (\<lambda>t. batchLength t \<le> batchSize) log
           \<and> nodesBeforeRelationships log
           \<and> (ok \<longrightarrow> concat (map batchNodes log) = finalNodes)"
proof -
  define groups where "groups = groupByType (map_values (map_from_entries
      (map (\<lambda>r. (rel_entityId r, r)) (pass1Relationships @ pass2Relationships))))"
  obtain bs ok where n: "saveNodesBatch runTransaction batchSize finalNodes [] = Some (map NodeBatch bs, ok)"
    and bs: "list_all (\<lambda>b. length b \<le> batchSize) bs" and all: "ok \<longrightarrow> concat bs = finalNodes"
    using saveNodesBatch_returns [OF assms] by blast
  have nb: "list_all (\<lambda>t. batchLength t \<le> batchSize) (map NodeBatch bs)"
    using bs by (simp add: list_all_iff)
  show ?thesis
  proof (cases ok)
    case False
    have "storeResults runTransaction batchSize finalNodes pass1Relationships pass2Relationships
        = Some (map NodeBatch bs @ [], False)"
      using n False by (simp add: storeResults_def)
    then show ?thesis
      using nb nodesBeforeRelationships_append [of "[]" bs] by auto
  next
    case True
    obtain rl ok' where g: "saveGroups runTransaction batchSize groups (map NodeBatch bs) = Some (map NodeBatch bs @ rl, ok')"
      and rl: "list_all (\<lambda>t. \<not> isNodeBatch t \<and> batchLength t \<le> batchSize) rl"
      using saveGroups_returns [OF assms] by blast
    have rl1: "list_all (\<lambda>t. \<not> isNodeBatch t) rl" and rl2: "list_all (\<lambda>t. batchLength t \<le> batchSize) rl"
      using rl by (simp_all add: list_all_iff)
    have "storeResults runTransaction batchSize finalNodes pass1Relationships pass2Relationships
        = Some (map NodeBatch bs @ rl, ok')"
      using n True g by (simp add: storeResults_def groups_def)
    moreover have "list_all (\<lambda>t. batchLength t \<le> batchSize) (map NodeBatch bs @ rl)"
      using nb rl2 by simp
    moreover have "concat (map batchNodes (map NodeBatch bs @ rl)) = finalNodes"
      using batchNodes_log [OF rl1, of bs] all True by simp
    ultimately show ?thesis
      using nodesBeforeRelationships_append [OF rl1, of bs] by blast
  qed
qed

theorem C6_witness:
  "0 < (2::nat)
   \<and> storeResults (\<lambda>t. True) 2
        [mkNode ''a'' ''File'' ''a.ts'' ''/a.ts'' ''TypeScript'',
         mkNode ''b'' ''Function'' ''f'' ''/a.ts'' ''TypeScript'',
         mkNode ''c'' ''Function'' ''g'' ''/a.ts'' ''TypeScript'']
        [mkRel ''r1'' ''CALLS'' ''b'' ''c'', mkRel ''r2'' ''IMPORTS'' ''a'' ''x'']
        [mkRel ''r3'' ''CALLS'' ''c'' ''b'', mkRel ''r4'' ''CALLS'' ''c'' ''c'']
       = Some ([NodeBatch [mkNode ''a'' ''File'' ''a.ts'' ''/a.ts'' ''TypeScript'',
                           mkNode ''b'' ''Function'' ''f'' ''/a.ts'' ''TypeScript''],
                NodeBatch [mkNode ''c'' ''Function'' ''g'' ''/a.ts'' ''TypeScript''],
                RelBatch ''CALLS'' [mkRel ''r1'' ''CALLS'' ''b'' ''c'', mkRel ''r3'' ''CALLS'' ''c'' ''b''],
                RelBatch ''CALLS'' [mkRel ''r4'' ''CALLS'' ''c'' ''c''],
                RelBatch ''IMPORTS'' [mkRel ''r2'' ''IMPORTS'' ''a'' ''x'']], True)"
  using C6_write_phase_batches [of 2 "\<lambda>t. True"
        "[mkNode ''a'' ''File'' ''a.ts'' ''/a.ts'' ''TypeScript'',
          mkNode ''b'' ''Function'' ''f'' ''/a.ts'' ''TypeScript'',
          mkNode ''c'' ''Function'' ''g'' ''/a.ts'' ''TypeScript'']"
        "[mkRel ''r1'' ''CALLS'' ''b'' ''c'', mkRel ''r2'' ''IMPORTS'' ''a'' ''x'']"
        "[mkRel ''r3'' ''CALLS'' ''c'' ''b'', mkRel ''r4'' ''CALLS'' ''c'' ''c'']"]
  by (simp add: storeResults_def saveNodesBatch_def saveNodesLoop.simps saveRelationshipsBatch_def
        saveRelationshipsLoop.simps groupByType_def map_from_entries_def map_values_def slice_def
        mkRel_def mkNode_def)

subsection \<open>C/C++ includes\<close>

lemma includeRelationship_sound:
  "r \<in> set (includeRelationship gen fileNode d) \<Longrightarrow>
   \<exists>p. getProp d ''includePath'' = Some (PStr p) \<and> p \<noteq> []
      \<and> rel_type r = ''INCLUDES'' \<and> sourceId r = entityId fileNode \<and> targetId r = gen ''file'' p
      \<and> relProp r ''isPlaceholder'' = Some (PBool True)"
  by (auto simp: includeRelationship_def relProp_def Let_def split: option.splits pval.splits if_splits)
     metis+

lemma includeRelationship_emits:
  "getProp d ''includePath'' = Some (PStr p) \<Longrightarrow> p \<noteq> [] \<Longrightarrow>
   \<exists>r. includeRelationship gen fileNode d = [r] \<and> rel_type r = ''INCLUDES''
        \<and> sourceId r = entityId fileNode \<and> targetId r = gen ''file'' p
        \<and> relProp r ''isPlaceholder'' = Some (PBool True)"
  by (simp add: includeRelationship_def relProp_def Let_def)

text \<open>
  C4, amended: for every \<open>IncludeDirective\<close> node of a C or C++ file that carries a
  non-empty include path, the Pass 2 include resolver submits a File-INCLUDES-File
  edge from the file whose target entity id is derived from the include path string
  itself and which is marked as a placeholder, whatever file nodes the index holds;
  and it submits no other edge.  The index is read for the directives only.
\<close>

theorem C4_includes_always_placeholder:
  assumes "language fileNode = ''C'' \<or> language fileNode = ''C++''"
  shows "(\<forall>r \<in> set (resolveCIncludes gen sourceFile fileNode nodeIndex).
            rel_type r = ''INCLUDES'' \<and> sourceId r = entityId fileNode
            \<and> relProp r ''isPlaceholder'' = Some (PBool True)
            \<and> (\<exists>d \<in> set (map_values nodeIndex). \<exists>p.
                  kind d = ''IncludeDirective'' \<and> filePath d = filePath fileNode
                  \<and> getProp d ''includePath'' = Some (PStr p) \<and> p \<noteq> [] \<and> targetId r = gen ''file'' p))
       \<and> (\<forall>d \<in> set (map_values nodeIndex). \<forall>p.
            kind d = ''IncludeDirective'' \<and> filePath d = filePath fileNode
            \<and> getProp d ''includePath'' = Some (PStr p) \<and> p \<noteq> []
            \<longrightarrow> (\<exists>r \<in> set (resolveCIncludes gen sourceFile fileNode nodeIndex).
                   targetId r = gen ''file'' p \<and> relProp r ''isPlaceholder'' = Some (PBool True)))"
proof (intro conjI ballI allI impI)
  fix r
  assume "r \<in> set (resolveCIncludes gen sourceFile fileNode nodeIndex)"
  then obtain d where d: "d \<in> set (map_values nodeIndex)" "kind d = ''IncludeDirective''"
      "filePath d = filePath fileNode" and r: "r \<in> set (includeRelationship gen fileNode d)"
    using assms by (auto simp: resolveCIncludes_def Let_def)
  from includeRelationship_sound [OF r]
  obtain p where p: "getProp d ''includePath'' = Some (PStr p)" "p \<noteq> []"
      "rel_type r = ''INCLUDES''" "sourceId r = entityId fileNode" "targetId r = gen ''file'' p"
      "relProp r ''isPlaceholder'' = Some (PBool True)"
    by auto
  then show "rel_type r = ''INCLUDES''" "sourceId r = entityId fileNode"
      "relProp r ''isPlaceholder'' = Some (PBool True)"
    by simp_all
  show "\<exists>d \<in> set (map_values nodeIndex). \<exists>p.
          kind d = ''IncludeDirective'' \<and> filePath d = filePath fileNode
          \<and> getProp d ''includePath'' = Some (PStr p) \<and> p \<noteq> [] \<and> targetId r = gen ''file'' p"
    using d p by blast
next
  fix d p
  assume d: "d \<in> set (map_values nodeIndex)"
    and h: "kind d = ''IncludeDirective'' \<and> filePath d = filePath fileNode
            \<and> getProp d ''includePath'' = Some (PStr p) \<and> p \<noteq> []"
  then obtain r where r: "includeRelationship gen fileNode d = [r]" "targetId r = gen ''file'' p"
      "relProp r ''isPlaceholder'' = Some (PBool True)"
    using includeRelationship_emits [of d p gen fileNode] by blast
  have "r \<in> set (resolveCIncludes gen sourceFile fileNode nodeIndex)"
    using assms d h r(1) by (auto simp: resolveCIncludes_def Let_def intro!: bexI [of _ d])
  with r show "\<exists>r \<in> set (resolveCIncludes gen sourceFile fileNode nodeIndex).
      targetId r = gen ''file'' p \<and> relProp r ''isPlaceholder'' = Some (PBool True)"
    by blast
qed

lemma ex4_index_eq: "ex4_index = [(entityId ex4_main, ex4_main), (entityId ex4_directive, ex4_directive),
    (entityId ex4_header, ex4_header)]"
  by (simp add: ex4_index_def nodeIndexOf_def map_from_entries_def ex4_main_def ex4_directive_def
        ex4_header_def mkNode_def generateEntityId_def)

theorem C4_witness:
  "language ex4_main = ''C++''
   \<and> ex4_directive \<in> set (map_values ex4_index)
   \<and> kind ex4_directive = ''IncludeDirective'' \<and> filePath ex4_directive = filePath ex4_main
   \<and> getProp ex4_directive ''includePath'' = Some (PStr ''shapes/Circle.h'')
   \<and> (\<exists>r \<in> set (resolveCIncludes generateEntityId (mkSourceFile ''/proj/main.cpp'' Standard) ex4_main ex4_index).
         targetId r = generateEntityId ''file'' ''shapes/Circle.h''
         \<and> relProp r ''isPlaceholder'' = Some (PBool True))"
proof -
  have lang: "language ex4_main = ''C++''"
    by (simp add: ex4_main_def mkNode_def)
  have d: "ex4_directive \<in> set (map_values ex4_index)"
    by (simp add: ex4_index_eq map_values_def)
  have props: "kind ex4_directive = ''IncludeDirective'' \<and> filePath ex4_directive = filePath ex4_main
      \<and> getProp ex4_directive ''includePath'' = Some (PStr ''shapes/Circle.h'') \<and> ''shapes/Circle.h'' \<noteq> []"
    by (simp add: ex4_directive_def ex4_main_def mkNode_def getProp_def)
  have "\<forall>d \<in> set (map_values ex4_index). \<forall>p.
          kind d = ''IncludeDirective'' \<and> filePath d = filePath ex4_main
          \<and> getProp d ''includePath'' = Some (PStr p) \<and> p \<noteq> []
          \<longrightarrow> (\<exists>r \<in> set (resolveCIncludes generateEntityId (mkSourceFile ''/proj/main.cpp'' Standard) ex4_main ex4_index).
                 targetId r = generateEntityId ''file'' p \<and> relProp r ''isPlaceholder'' = Some (PBool True))"
    using C4_includes_always_placeholder
      [of ex4_main generateEntityId "mkSourceFile ''/proj/main.cpp'' Standard" ex4_index] lang
    by blast
  with d props have "\<exists>r \<in> set (resolveCIncludes generateEntityId (mkSourceFile ''/proj/main.cpp'' Standard) ex4_main ex4_index).
         targetId r = generateEntityId ''file'' ''shapes/Circle.h''
         \<and> relProp r ''isPlaceholder'' = Some (PBool True)"
    by blast
  with lang d props show ?thesis
    by blast
qed

theorem C4_counterexample:
  "specIncludeTarget ex4_index ''shapes/Circle.h'' = Some ex4_header
   \<and> map targetId (resolveCIncludes generateEntityId (mkSourceFile ''/proj/main.cpp'' Standard) ex4_main ex4_index)
       = [''file:shapes/Circle.h'']
   \<and> entityId ex4_header = ''file:/proj/shapes/Circle.h''
   \<and> map (\<lambda>r. relProp r ''isPlaceholder'')
         (resolveCIncludes generateEntityId (mkSourceFile ''/proj/main.cpp'' Standard) ex4_main ex4_index)
       = [Some (PBool True)]"
  by (simp add: ex4_index_eq map_values_def resolveCIncludes_def includeRelationship_def getProp_def relProp_def
        specIncludeTarget_def isSuffixOf_def Let_def ex4_main_def ex4_directive_def ex4_header_def
        mkNode_def generateEntityId_def)

subsection \<open>The language gate of Pass 2\<close>

lemma set_map_set: "set (map_set k v m) \<subseteq> insert (k, v) (set m)"
  by (induction m) auto

lemma fold_map_set_subset:
  "set (fold (\<lambda>e m. map_set (fst e) (snd e) m) es m) \<subseteq> set es \<union> set m"
proof (induction es arbitrary: m)
  case Nil
  then show ?case by simp
next
  case (Cons e es)
  have "set (fold (\<lambda>e m. map_set (fst e) (snd e) m) es (map_set (fst e) (snd e) m))
          \<subseteq> set es \<union> set (map_set (fst e) (snd e) m)"
    by (rule Cons.IH)
  also have "\<dots> \<subseteq> set es \<union> insert e (set m)"
    using set_map_set [of "fst e" "snd e" m] by auto
  finally show ?case by auto
qed

lemma map_from_entries_values: "set (map_values (map_from_entries es)) \<subseteq> snd ` set es"
  using fold_map_set_subset [of es "[]"] by (auto simp: map_from_entries_def map_values_def)

lemma resolveFile_other_language:
  "language fileNode \<noteq> ''TypeScript'' \<Longrightarrow> language fileNode \<noteq> ''JavaScript'' \<Longrightarrow>
   language fileNode \<noteq> ''C'' \<Longrightarrow> language fileNode \<noteq> ''C++'' \<Longrightarrow>
   resolveFile rs project nodeIndex fileNode = []"
  by (simp add: resolveFile_def)

lemma fold_no_submissions:
  "list_all (\<lambda>fileNode. f fileNode = []) fileNodes \<Longrightarrow>
   fold (\<lambda>fileNode st. fold addRelationship (f fileNode) st) fileNodes st = st"
  by (induction fileNodes) simp_all

lemma makeFileNode_language:
  "language (makeFileNode gen sourceFile) = (if languageVariant sourceFile = JSX then ''TSX'' else ''TypeScript'')"
  by (simp add: makeFileNode_def Let_def)

text \<open>
  C3 (the code departs from the claim): the file node of a source file parsed with the
  JSX language variant has the language \<open>TSX\<close>, and the loop of \<open>resolveRelationships\<close>
  calls the TypeScript resolvers, \<open>resolveTsComponentUsage\<close> among them, only for the
  languages \<open>TypeScript\<close> and \<open>JavaScript\<close>.  When the \<open>.tsx\<close> file of the scenario is the
  only file, Pass 2 returns no relationship at all, whatever the resolvers would submit.
\<close>

theorem C3_tsx_file_skipped_in_pass2:
  assumes "languageVariant sourceFile = JSX"
    and "list_all (\<lambda>n. kind n \<noteq> ''File'' \<and> kind n \<noteq> ''PythonModule'') others"
  shows "resolveRelationships rs project (makeFileNode gen sourceFile # others) = []"
proof -
  let ?allNodes = "makeFileNode gen sourceFile # others"
  let ?nodeIndex = "nodeIndexOf ?allNodes"
  let ?fileNodes = "filter (\<lambda>node. kind node = ''File'' \<or> kind node = ''PythonModule'') (map_values ?nodeIndex)"
  have "set (map_values ?nodeIndex) \<subseteq> set ?allNodes"
    using map_from_entries_values [of "map (\<lambda>node. (entityId node, node)) ?allNodes"]
    by (auto simp: image_iff nodeIndexOf_def)
  then have "set ?fileNodes \<subseteq> {makeFileNode gen sourceFile}"
    using assms(2) by (auto simp: list_all_iff)
  moreover have "resolveFile rs project ?nodeIndex (makeFileNode gen sourceFile) = []"
    using assms(1) by (intro resolveFile_other_language) (simp_all add: makeFileNode_language)
  ultimately have "list_all (\<lambda>fileNode. resolveFile rs project ?nodeIndex fileNode = []) ?fileNodes"
    unfolding list_all_iff by blast
  then have "fold (\<lambda>fileNode st. fold addRelationship (resolveFile rs project ?nodeIndex fileNode) st)
               ?fileNodes \<lparr>st_relationships = [], addedRelEntityIds = {}\<rparr>
             = \<lparr>st_relationships = [], addedRelEntityIds = {}\<rparr>"
    by (rule fold_no_submissions)
  then show ?thesis
    by (simp add: resolveRelationships_def Let_def)
qed

theorem C3_witness:
  "languageVariant ex3_sourceFile = JSX
   \<and> list_all (\<lambda>n. kind n \<noteq> ''File'' \<and> kind n \<noteq> ''PythonModule'') ex3_components
   \<and> language (makeFileNode generateEntityId ex3_sourceFile) = ''TSX''
   \<and> getSourceFile [ex3_sourceFile] (filePath (makeFileNode generateEntityId ex3_sourceFile)) = Some ex3_sourceFile
   \<and> tsComponentUsage ex3_resolvers ex3_sourceFile (makeFileNode generateEntityId ex3_sourceFile) []
       = [ex3_usesComponent]
   \<and> resolveRelationships ex3_resolvers [ex3_sourceFile]
        (makeFileNode generateEntityId ex3_sourceFile # ex3_components) = []"
proof -
  have 1: "languageVariant ex3_sourceFile = JSX"
    by (simp add: ex3_sourceFile_def mkSourceFile_def)
  have 2: "list_all (\<lambda>n. kind n \<noteq> ''File'' \<and> kind n \<noteq> ''PythonModule'') ex3_components"
    by (simp add: ex3_components_def mkNode_def)
  have 3: "getSourceFile [ex3_sourceFile] (filePath (makeFileNode generateEntityId ex3_sourceFile)) = Some ex3_sourceFile"
    by (simp add: getSourceFile_def makeFileNode_def normalizeSlashes_def ex3_sourceFile_def mkSourceFile_def Let_def)
  show ?thesis
    using C3_tsx_file_skipped_in_pass2 [OF 1 2, of ex3_resolvers "[ex3_sourceFile]" generateEntityId] 1 2 3
    by (simp add: makeFileNode_language ex3_resolvers_def)
qed

subsection \<open>Variable ids in the two passes\<close>

lemma showNat_not_Nil: "showNat n \<noteq> []"
  by (subst showNat.simps) simp

lemma toLowerCase_Variable: "toLowerCase ''Variable'' = ''variable''"
  by (simp add: toLowerCase_def)

lemma variableNode_id:
  assumes "initializer declaration \<noteq> FunctionExpressionInit" "initializer declaration \<noteq> ArrowFunctionInit"
  shows "\<exists>node. variableNode gen fileNode statement declaration = Some node
           \<and> kind node = ''Variable''
           \<and> entityId node = gen ''variable'' (filePath fileNode @ '':'' @ var_name declaration @ '':''
                                                  @ showNat (var_startLine declaration))"
  using assms by (simp add: variableNode_def Let_def)

lemma getTargetDeclarationInfo_variable:
  assumes "initializer declaration \<noteq> FunctionExpressionInit" "initializer declaration \<noteq> ArrowFunctionInit"
  shows "\<exists>info. getTargetDeclarationInfo gen rip
              (Some \<lparr>sym_name = symName, sym_declarations = [VariableD declaration],
                      sym_declFilePath = declFilePath\<rparr>) currentFilePath = Some info
           \<and> tdi_kind info = ''Variable''
           \<and> tdi_entityId info = gen ''variable'' (normalizeSlashes (rip currentFilePath declFilePath)
                                                      @ '':'' @ var_name declaration)"
  using assms by (simp add: getTargetDeclarationInfo_def Let_def toLowerCase_Variable)

text \<open>
  C1 (the code departs from the claim): for a variable declaration whose initializer is
  not function-like, Pass 1 builds the id of the Variable node from
  \<open>filePath:name:startLine\<close>, while \<open>getTargetDeclarationInfo\<close> builds the id of the same
  declaration from \<open>filePath:name\<close>, without the line.  When the id encoding tells
  different qualified names of variables apart, and the declaration's file path
  resolves to the path Pass 1 used, the two ids differ for every such declaration.
\<close>

theorem C1_variable_entityId_mismatch:
  assumes "inj (gen ''variable'')"
    and "normalizeSlashes (rip currentFilePath (sf_filePath sourceFile)) = normalizeSlashes (sf_filePath sourceFile)"
    and "initializer declaration \<noteq> FunctionExpressionInit" "initializer declaration \<noteq> ArrowFunctionInit"
  shows "\<exists>node info.
           variableNode gen (makeFileNode gen sourceFile) statement declaration = Some node
           \<and> getTargetDeclarationInfo gen rip
                (Some \<lparr>sym_name = var_name declaration, sym_declarations = [VariableD declaration],
                        sym_declFilePath = sf_filePath sourceFile\<rparr>) currentFilePath = Some info
           \<and> kind node = ''Variable'' \<and> tdi_kind info = ''Variable''
           \<and> entityId node \<noteq> tdi_entityId info"
proof -
  let ?p = "normalizeSlashes (sf_filePath sourceFile)"
  obtain node where n: "variableNode gen (makeFileNode gen sourceFile) statement declaration = Some node"
      "kind node = ''Variable''"
      "entityId node = gen ''variable'' (filePath (makeFileNode gen sourceFile) @ '':'' @ var_name declaration
                                          @ '':'' @ showNat (var_startLine declaration))"
    using variableNode_id [OF assms(3,4)] by blast
  obtain info where i: "getTargetDeclarationInfo gen rip
        (Some \<lparr>sym_name = var_name declaration, sym_declarations = [VariableD declaration],
                sym_declFilePath = sf_filePath sourceFile\<rparr>) currentFilePath = Some info"
      "tdi_kind info = ''Variable''"
      "tdi_entityId info = gen ''variable'' (normalizeSlashes (rip currentFilePath (sf_filePath sourceFile))
                                              @ '':'' @ var_name declaration)"
    using getTargetDeclarationInfo_variable [OF assms(3,4)] by blast
  have fp: "filePath (makeFileNode gen sourceFile) = ?p"
    by (simp add: makeFileNode_def Let_def)
  have "?p @ '':'' @ var_name declaration @ '':'' @ showNat (var_startLine declaration)
          \<noteq> ?p @ '':'' @ var_name declaration"
    by simp
  then have "entityId node \<noteq> tdi_entityId info"
    unfolding n(3) i(3) fp assms(2) using assms(1) by (simp add: inj_eq)
  with n i show ?thesis
    by blast
qed

theorem C1_witness:
  "inj (generateEntityId ''variable'')
   \<and> normalizeSlashes (resolveImportPathPass1 ''/src/b.ts'' (sf_filePath ex1_sourceFile))
       = normalizeSlashes (sf_filePath ex1_sourceFile)
   \<and> initializer ex1_declaration = OtherInit
   \<and> map_option entityId (variableNode generateEntityId (makeFileNode generateEntityId ex1_sourceFile)
                               ex1_statement ex1_declaration)
       = Some ''variable:/src/a.ts:limit:3''
   \<and> map_option tdi_entityId (getTargetDeclarationInfo generateEntityId resolveImportPathPass1
                                   (Some ex1_symbol) ''/src/b.ts'')
       = Some ''variable:/src/a.ts:limit''"
proof -
  have 1: "inj (generateEntityId ''variable'')"
    by (simp add: inj_def generateEntityId_def)
  have 2: "normalizeSlashes (resolveImportPathPass1 ''/src/b.ts'' (sf_filePath ex1_sourceFile))
       = normalizeSlashes (sf_filePath ex1_sourceFile)"
    by (simp add: resolveImportPathPass1_def)
  have 3: "initializer ex1_declaration \<noteq> FunctionExpressionInit" "initializer ex1_declaration \<noteq> ArrowFunctionInit"
    by (simp_all add: ex1_declaration_def)
  have s: "ex1_symbol = \<lparr>sym_name = var_name ex1_declaration, sym_declarations = [VariableD ex1_declaration],
                          sym_declFilePath = sf_filePath ex1_sourceFile\<rparr>"
    by (simp add: ex1_symbol_def ex1_declaration_def ex1_sourceFile_def mkSourceFile_def)
  show ?thesis
    using C1_variable_entityId_mismatch
      [of generateEntityId resolveImportPathPass1 "''/src/b.ts''" ex1_sourceFile ex1_declaration ex1_statement]
      1 2 3
    by (simp add: ex1_symbol_def ex1_declaration_def ex1_sourceFile_def mkSourceFile_def variableNode_def
          getTargetDeclarationInfo_def makeFileNode_def normalizeSlashes_def resolveImportPathPass1_def
          generateEntityId_def toLowerCase_Variable showNat.simps digitChar_def Let_def)
qed

subsection \<open>Import resolution\<close>

lemma collectResults_nodes_subset:
  "set (fst (collectResults tempDir tsResults)) \<subseteq> set (processedNodes tempDir tsResults)"
proof
  fix n
  assume "n \<in> set (fst (collectResults tempDir tsResults))"
  then obtain k where kv: "(k, n) \<in> set (fst (collectMaps tempDir tsResults))"
    by (auto simp: collectResults_def Let_def map_values_def)
  have inv: "collect_inv (processedNodes tempDir tsResults) (processedRelationships tempDir tsResults)
      (collectMaps tempDir tsResults)"
    by (rule collect_inv_final)
  then have "distinct (map fst (fst (collectMaps tempDir tsResults)))"
    by (simp add: collect_inv_def keyed_def)
  with kv have "map_of (fst (collectMaps tempDir tsResults)) k = Some n"
    by simp
  then have "map_of (rev (map (\<lambda>x. (entityId x, x)) (processedNodes tempDir tsResults))) k = Some n"
    using inv by (simp add: collect_inv_def)
  then have "(k, n) \<in> set (rev (map (\<lambda>x. (entityId x, x)) (processedNodes tempDir tsResults)))"
    by (rule map_of_SomeD)
  then show "n \<in> set (processedNodes tempDir tsResults)"
    by auto
qed

lemma nodeIndexOf_values: "set (map_values (nodeIndexOf allNodes)) \<subseteq> set allNodes"
  using map_from_entries_values [of "map (\<lambda>node. (entityId node, node)) allNodes"]
  by (auto simp: image_iff nodeIndexOf_def)

lemma map_get_values: "map_get m k = Some v \<Longrightarrow> v \<in> set (map_values m)"
  unfolding map_get_def map_values_def by (metis map_of_SomeD image_eqI set_map snd_conv)

lemma lookupNamedTarget_values:
  "lookupNamedTarget gen nodeIndex targetFileNode importName = Some n \<Longrightarrow> n \<in> set (map_values nodeIndex)"
  by (auto simp: lookupNamedTarget_def split: option.splits dest: map_get_values)

lemma resolveNamedImport_none:
  assumes "list_all noExportProperty (map_values nodeIndex)"
  shows "resolveNamedImport gen nodeIndex importAstNode targetFileNode namedImport = []"
proof (cases "lookupNamedTarget gen nodeIndex targetFileNode (ni_name namedImport)")
  case None
  then show ?thesis by (simp add: resolveNamedImport_def)
next
  case (Some targetNode)
  then have "targetNode \<in> set (map_values nodeIndex)"
    by (rule lookupNamedTarget_values)
  with assms have "noExportProperty targetNode"
    by (simp add: list_all_iff)
  with Some show ?thesis
    by (simp add: resolveNamedImport_def noExportProperty_def)
qed

lemma resolveImportDeclaration_named_only:
  assumes "list_all noExportProperty (map_values nodeIndex)"
    and "defaultImport impDecl = None" "namespaceImport impDecl = None"
  shows "filter (\<lambda>r. rel_type r = ''RESOLVES_IMPORT'') (resolveImportDeclaration gen rip fileNode nodeIndex impDecl) = []"
proof -
  have "concat (map (resolveNamedImport gen nodeIndex importAstNode targetFile) (namedImports impDecl)) = []"
    for importAstNode targetFile
    using resolveNamedImport_none [OF assms(1)] by simp
  then show ?thesis
    using assms(2,3) by (simp add: resolveImportDeclaration_def Let_def split: option.splits)
qed

lemma scenario1_processed:
  "processedNodes (Some []) (parseTsProjectFiles gen [ex2_a, ex2_b] [''/src/a.ts'', ''/src/b.ts''])
     = [makeFileNode gen ex2_a,
        \<lparr>entityId = gen ''import'' ''/src/a.ts:./b:1'', kind = ''Import'', name = ''./b:1'',
          filePath = ''/src/a.ts'', language = ''TypeScript'', startLine = 1, endLine = 1,
          isExported = None,
          properties = Some [(''moduleSpecifier'', PStr ''./b''), (''namedImports'', PStrs [''funcB'']),
                             (''defaultImport'', PUndefined), (''namespaceImport'', PUndefined),
                             (''isTypeOnly'', PBool False)]\<rparr>,
        \<lparr>entityId = gen ''function'' ''/src/a.ts:funcA:1'', kind = ''Function'', name = ''funcA'',
          filePath = ''/src/a.ts'', language = ''TypeScript'', startLine = 1, endLine = 1,
          isExported = Some True, properties = Some [(''isCallback'', PBool False)]\<rparr>,
        makeFileNode gen ex2_b,
        \<lparr>entityId = gen ''function'' ''/src/b.ts:funcB:1'', kind = ''Function'', name = ''funcB'',
          filePath = ''/src/b.ts'', language = ''TypeScript'', startLine = 1, endLine = 1,
          isExported = Some True, properties = Some [(''isCallback'', PBool False)]\<rparr>]"
  by (simp add: processedNodes_def parseTsProjectFiles_def parseTsFile_def parseImports_def parseImport_def
        parseFunctions_def parseFunction_def parseParameters_def functionNode_def parseVariables_def
        addNode_def addParsedRelationship_def makeFileNode_def normalizeSlashes_def optStr_def
        ex2_a_def ex2_b_def showNat.simps digitChar_def Let_def)

lemma scenario1_noExportProperty: "list_all noExportProperty (map_values (nodeIndexOf (scenario1_nodes gen)))"
proof -
  have "list_all noExportProperty
      (processedNodes (Some []) (parseTsProjectFiles gen [ex2_a, ex2_b] [''/src/a.ts'', ''/src/b.ts'']))"
    unfolding scenario1_processed
    by (simp add: noExportProperty_def getProp_def makeFileNode_def Let_def)
  then show ?thesis
    using nodeIndexOf_values [of "scenario1_nodes gen"]
      collectResults_nodes_subset
        [of "Some []" "parseTsProjectFiles gen [ex2_a, ex2_b] [''/src/a.ts'', ''/src/b.ts'']"]
    unfolding list_all_iff scenario1_nodes_def by blast
qed

text \<open>
  C2 (the code departs from the claim): for the two files of scenario 1, whatever the id
  encoding and whichever file node is passed, the import resolution of Pass 2 submits
  no \<open>RESOLVES_IMPORT\<close> relationship for \<open>a.ts\<close>.  The candidate ids are looked up
  with the qualified name \<open>filePath:funcB\<close>, while Pass 1 filed the function under
  \<open>filePath:funcB:1\<close>; and no Pass 1 node of the scenario has \<open>isExported\<close> or
  \<open>isDefaultExport\<close> in its \<open>properties\<close> object, where the resolver reads them
  (\<open>parseFunctions\<close> sets \<open>isExported\<close> on the node itself).
\<close>

theorem C2_scenario1_no_resolves_import:
  "filter (\<lambda>r. rel_type r = ''RESOLVES_IMPORT'')
     (resolveTsModules gen rip ex2_a fileNode (nodeIndexOf (scenario1_nodes gen))) = []"
proof -
  have "filter (\<lambda>r. rel_type r = ''RESOLVES_IMPORT'')
          (resolveImportDeclaration gen rip fileNode (nodeIndexOf (scenario1_nodes gen)) impDecl) = []"
    if "impDecl \<in> set (importDeclarations ex2_a)" for impDecl
    using that by (intro resolveImportDeclaration_named_only scenario1_noExportProperty)
      (auto simp: ex2_a_def)
  then show ?thesis
    by (simp add: resolveTsModules_def filter_concat)
qed

lemma scenario1_nodes_eval:
  "scenario1_nodes generateEntityId
     = [makeFileNode generateEntityId ex2_a,
        \<lparr>entityId = ''import:/src/a.ts:./b:1'', kind = ''Import'', name = ''./b:1'',
          filePath = ''/src/a.ts'', language = ''TypeScript'', startLine = 1, endLine = 1,
          isExported = None,
          properties = Some [(''moduleSpecifier'', PStr ''./b''), (''namedImports'', PStrs [''funcB'']),
                             (''defaultImport'', PUndefined), (''namespaceImport'', PUndefined),
                             (''isTypeOnly'', PBool False)]\<rparr>,
        \<lparr>entityId = ''function:/src/a.ts:funcA:1'', kind = ''Function'', name = ''funcA'',
          filePath = ''/src/a.ts'', language = ''TypeScript'', startLine = 1, endLine = 1,
          isExported = Some True, properties = Some [(''isCallback'', PBool False)]\<rparr>,
        makeFileNode generateEntityId ex2_b,
        \<lparr>entityId = ''function:/src/b.ts:funcB:1'', kind = ''Function'', name = ''funcB'',
          filePath = ''/src/b.ts'', language = ''TypeScript'', startLine = 1, endLine = 1,
          isExported = Some True, properties = Some [(''isCallback'', PBool False)]\<rparr>]"
  by (simp add: scenario1_nodes_def collectResults_def collectMaps_def collectFile_def dedupFileNodes_def
        mergeNodes_def mergeRelationships_def map_values_def
        parseTsProjectFiles_def parseTsFile_def parseImports_def parseImport_def
        parseFunctions_def parseFunction_def parseParameters_def functionNode_def parseVariables_def
        addNode_def addParsedRelationship_def makeFileNode_def normalizeSlashes_def optStr_def
        ex2_a_def ex2_b_def showNat.simps digitChar_def generateEntityId_def Let_def)

theorem C2_witness:
  "map entityId (scenario1_nodes generateEntityId)
     = [''file:/src/a.ts'', ''import:/src/a.ts:./b:1'', ''function:/src/a.ts:funcA:1'',
        ''file:/src/b.ts'', ''function:/src/b.ts:funcB:1'']
   \<and> map_option kind (map_get (nodeIndexOf (scenario1_nodes generateEntityId)) ''import:/src/a.ts:./b:1'')
       = Some ''Import''
   \<and> lookupNamedTarget generateEntityId (nodeIndexOf (scenario1_nodes generateEntityId))
         (makeFileNode generateEntityId ex2_b) ''funcB'' = None
   \<and> map (\<lambda>r. (rel_type r, sourceId r, targetId r))
         (resolveTsModules generateEntityId resolveImportPathPass1 ex2_a (makeFileNode generateEntityId ex2_a)
            (nodeIndexOf (scenario1_nodes generateEntityId)))
       = [(''IMPORTS'', ''file:/src/a.ts'', ''file:/src/b.ts'')]
   \<and> filter (\<lambda>r. rel_type r = ''RESOLVES_IMPORT'')
         (resolveTsModules generateEntityId resolveImportPathPass1 ex2_a (makeFileNode generateEntityId ex2_a)
            (nodeIndexOf (scenario1_nodes generateEntityId))) = []"
  using C2_scenario1_no_resolves_import
    [of generateEntityId resolveImportPathPass1 "makeFileNode generateEntityId ex2_a"]
  by (simp add: scenario1_nodes_eval nodeIndexOf_def map_from_entries_def map_get_def
        resolveTsModules_def resolveImportDeclaration_def resolveNamedImport_def lookupNamedTarget_def
        findNodeByFilePath_def makeFileNode_def normalizeSlashes_def basename_def
        ex2_a_def ex2_b_def generateEntityId_def showNat.simps digitChar_def Let_def)

end
